theory Spec2Isabelle
  imports Main "HOL-Library.Word"
begin

unbundle bit_operations_syntax

section \<open>Pointers, bytes and errors\<close>

text \<open>
  The Go package wraps the C interface of an external homomorphic-encryption engine.
  A C pointer is an address, \<open>0\<close> being \<open>NULL\<close>.  A Go handle (\<open>*ClientKey\<close>,
  \<open>*Ciphertext\<close>, ...) is a Go pointer, \<open>None\<close> being \<open>nil\<close>, to a struct whose only field
  \<open>ptr\<close> holds a C pointer.  The structs live in a store, since several places may hold the
  same Go pointer (the service and the process-wide key holder share the server key).

  The model follows one goroutine: a call runs from a world to a world, and the trace of the
  world records, in order, every call into the engine with the status it answered and
  every \<open>LockOSThread\<close> and \<open>UnlockOSThread\<close>.  The finalizers that the package registers
  with \<open>runtime.SetFinalizer\<close> are left out: a finalizer runs only when its handle has
  become unreachable, and then calls the \<open>Close\<close> that is modelled here.
\<close>

type_synonym cptr = nat
type_synonym goref = nat
type_synonym handle = "goref option"
type_synonym byte = "8 word"

text \<open>
  Go errors: \<open>errors.New msg\<close>, the \<open>fmt.Errorf("%s: tfhe error code %d", ...)\<close> of \<open>check\<close>
  (kept as its two arguments), \<open>base64.CorruptInputError\<close> (the byte offset it carries is
  left out), and a run-time panic, which unwinds the callers like an error return does,
  running their deferred calls.
\<close>

datatype err =
    ErrNew string
  | ErrTfhe string int
  | CorruptInputError
  | Panic string

section \<open>The engine interface\<close>

text \<open>One constructor per function of \<open>tfhe.h\<close> that the package calls, with its inputs.\<close>

datatype call =
    boolean_gen_keys_with_default_parameters
  | boolean_destroy_client_key cptr
  | boolean_destroy_server_key cptr
  | boolean_destroy_ciphertext cptr
  | boolean_client_key_encrypt cptr bool
  | boolean_client_key_decrypt cptr cptr
  | boolean_server_key_and cptr cptr cptr
  | boolean_server_key_or cptr cptr cptr
  | boolean_server_key_xor cptr cptr cptr
  | boolean_server_key_not cptr cptr
  | boolean_serialize_ciphertext cptr
  | boolean_deserialize_ciphertext "byte list"
  | destroy_dynamic_buffer "byte list"
  | config_builder_default
  | config_builder_build cptr
  | generate_keys cptr
  | set_server_key cptr
  | unset_server_key
  | client_key_destroy cptr
  | server_key_destroy cptr
  | public_key_new cptr
  | public_key_destroy cptr
  | fhe_uint8_try_encrypt_with_client_key_u8 byte cptr
  | fhe_uint8_try_encrypt_with_public_key_u8 byte cptr
  | fhe_uint8_decrypt cptr cptr
  | fhe_uint8_destroy cptr
  | fhe_uint8_add cptr cptr
  | fhe_uint8_bitand cptr cptr
  | fhe_uint8_bitxor cptr cptr
  | fhe_uint8_serialize cptr
  | fhe_uint8_deserialize "byte list"

text \<open>
  What a C call gives back: the \<open>int\<close> status and the out-parameters (a call writes the
  ones it has; the wrapper reads them only after a zero status).
\<close>

record reply =
  status :: int
  optr :: cptr
  optr2 :: cptr
  obool :: bool
  obyte :: byte
  obuf :: "byte list"

text \<open>
  The engine itself is not part of the package: it is a parameter, any function from a call
  and the engine's state to a reply and the next state.
\<close>

type_synonym 'e engine = "call \<Rightarrow> 'e \<Rightarrow> reply \<times> 'e"

datatype event = LockOSThread | UnlockOSThread | Ccall call int

record 'e world =
  eng :: 'e
  gheap :: "goref \<Rightarrow> cptr"
  gnext :: goref
  holder :: handle
  trace :: "event list"

definition emit :: "event \<Rightarrow> 'e world \<Rightarrow> 'e world" where
  "emit ev w = w\<lparr>trace := trace w @ [ev]\<rparr>"

definition ccall :: "'e engine \<Rightarrow> call \<Rightarrow> 'e world \<Rightarrow> reply \<times> 'e world" where
  "ccall E c w =
     (let (r, e') = E c (eng w)
      in (r, w\<lparr>eng := e', trace := trace w @ [Ccall c (status r)]\<rparr>))"

text \<open>\<open>h == nil || h.ptr == nil\<close> guards every use of \<open>h.ptr\<close>: \<open>deref\<close> is the guard and the read.\<close>

fun deref :: "'e world \<Rightarrow> handle \<Rightarrow> cptr option" where
  "deref w None = None"
| "deref w (Some r) = (if gheap w r = 0 then None else Some (gheap w r))"

fun clear_ptr :: "handle \<Rightarrow> 'e world \<Rightarrow> 'e world" where
  "clear_ptr None w = w"
| "clear_ptr (Some r) w = w\<lparr>gheap := (gheap w)(r := 0)\<rparr>"

definition check :: "int \<Rightarrow> string \<Rightarrow> err option" where
  "check code context = (if code \<noteq> 0 then Some (ErrTfhe context code) else None)"


section \<open>Sequencing, early return and \<open>defer\<close>\<close>

text \<open>
  A Go function that may fail takes the world and returns a result or an error, with the
  world it leaves.  \<open>bindE\<close> is \<open>x, err := m(); if err != nil { return err }\<close>;
  \<open>deferring\<close> is \<open>defer cleanup()\<close> followed by the rest of the body: the cleanup runs
  on every way out of that rest, and what it returns is dropped.
\<close>

type_synonym ('a, 'e) go = "'e world \<Rightarrow> (err + 'a) \<times> 'e world"

definition bindE :: "('a, 'e) go \<Rightarrow> ('a \<Rightarrow> ('b, 'e) go) \<Rightarrow> ('b, 'e) go" where
  "bindE m f w = (case m w of (Inl e, w') \<Rightarrow> (Inl e, w') | (Inr x, w') \<Rightarrow> f x w')"

definition deferring :: "('e world \<Rightarrow> 'e world) \<Rightarrow> ('a, 'e) go \<Rightarrow> ('a, 'e) go" where
  "deferring cleanup body w = (case body w of (r, w') \<Rightarrow> (r, cleanup w'))"

text \<open>\<open>if err := check(C.f(...), context); err != nil { return ..., err }\<close>\<close>

definition checked :: "'e engine \<Rightarrow> call \<Rightarrow> string \<Rightarrow> (reply, 'e) go" where
  "checked E c context w =
     (case ccall E c w of (r, w') \<Rightarrow>
        (case check (status r) context of Some e \<Rightarrow> (Inl e, w') | None \<Rightarrow> (Inr r, w')))"

text \<open>\<open>&T{ptr: p}\<close>: a fresh Go struct holding the C pointer.\<close>

definition wrap :: "cptr \<Rightarrow> (handle, 'e) go" where
  "wrap p w = (Inr (Some (gnext w)), w\<lparr>gheap := (gheap w)(gnext w := p), gnext := Suc (gnext w)\<rparr>)"

section \<open>The boolean family of the cgo bindings\<close>

definition GenerateBooleanKeys :: "'e engine \<Rightarrow> (handle \<times> handle, 'e) go" where
  "GenerateBooleanKeys E =
     bindE (checked E boolean_gen_keys_with_default_parameters ''generate boolean keys'') (\<lambda>r.
     bindE (wrap (optr r)) (\<lambda>client.
     bindE (wrap (optr2 r)) (\<lambda>server w. (Inr (client, server), w))))"

definition ClientKey_Close :: "'e engine \<Rightarrow> handle \<Rightarrow> 'e world \<Rightarrow> err option \<times> 'e world" where
  "ClientKey_Close E c w =
     (case deref w c of
        None \<Rightarrow> (None, w)
      | Some p \<Rightarrow>
          (case checked E (boolean_destroy_client_key p) ''destroy client key'' w of
             (Inl e, w') \<Rightarrow> (Some e, w')
           | (Inr _, w') \<Rightarrow> (None, clear_ptr c w')))"

definition ServerKey_Close :: "'e engine \<Rightarrow> handle \<Rightarrow> 'e world \<Rightarrow> err option \<times> 'e world" where
  "ServerKey_Close E s w =
     (case deref w s of
        None \<Rightarrow> (None, w)
      | Some p \<Rightarrow>
          (case checked E (boolean_destroy_server_key p) ''destroy server key'' w of
             (Inl e, w') \<Rightarrow> (Some e, w')
           | (Inr _, w') \<Rightarrow> (None, clear_ptr s w')))"

definition Ciphertext_Close :: "'e engine \<Rightarrow> handle \<Rightarrow> 'e world \<Rightarrow> err option \<times> 'e world" where
  "Ciphertext_Close E c w =
     (case deref w c of
        None \<Rightarrow> (None, w)
      | Some p \<Rightarrow>
          (case checked E (boolean_destroy_ciphertext p) ''destroy ciphertext'' w of
             (Inl e, w') \<Rightarrow> (Some e, w')
           | (Inr _, w') \<Rightarrow> (None, clear_ptr c w')))"

definition EncryptBool :: "'e engine \<Rightarrow> handle \<Rightarrow> bool \<Rightarrow> (handle, 'e) go" where
  "EncryptBool E client v w =
     (case deref w client of
        None \<Rightarrow> (Inl (ErrNew ''client key is nil''), w)
      | Some ck \<Rightarrow>
          bindE (checked E (boolean_client_key_encrypt ck v) ''encrypt bool'')
            (\<lambda>r. wrap (optr r)) w)"

definition DecryptBool :: "'e engine \<Rightarrow> handle \<Rightarrow> handle \<Rightarrow> (bool, 'e) go" where
  "DecryptBool E client ct w =
     (case deref w client of
        None \<Rightarrow> (Inl (ErrNew ''client key is nil''), w)
      | Some ck \<Rightarrow>
          (case deref w ct of
             None \<Rightarrow> (Inl (ErrNew ''ciphertext is nil''), w)
           | Some p \<Rightarrow>
               bindE (checked E (boolean_client_key_decrypt ck p) ''decrypt bool'')
                 (\<lambda>r w'. (Inr (obool r), w')) w))"

definition ServerKey_And :: "'e engine \<Rightarrow> handle \<Rightarrow> handle \<Rightarrow> handle \<Rightarrow> (handle, 'e) go" where
  "ServerKey_And E s lhs rhs w =
     (case deref w s of
        None \<Rightarrow> (Inl (ErrNew ''server key is nil''), w)
      | Some sk \<Rightarrow>
          (case (deref w lhs, deref w rhs) of
             (Some l, Some r) \<Rightarrow>
               bindE (checked E (boolean_server_key_and sk l r) ''boolean AND'')
                 (\<lambda>r. wrap (optr r)) w
           | _ \<Rightarrow> (Inl (ErrNew ''ciphertext is nil''), w)))"

definition ServerKey_Or :: "'e engine \<Rightarrow> handle \<Rightarrow> handle \<Rightarrow> handle \<Rightarrow> (handle, 'e) go" where
  "ServerKey_Or E s lhs rhs w =
     (case deref w s of
        None \<Rightarrow> (Inl (ErrNew ''server key is nil''), w)
      | Some sk \<Rightarrow>
          (case (deref w lhs, deref w rhs) of
             (Some l, Some r) \<Rightarrow>
               bindE (checked E (boolean_server_key_or sk l r) ''boolean OR'')
                 (\<lambda>r. wrap (optr r)) w
           | _ \<Rightarrow> (Inl (ErrNew ''ciphertext is nil''), w)))"

definition ServerKey_Xor :: "'e engine \<Rightarrow> handle \<Rightarrow> handle \<Rightarrow> handle \<Rightarrow> (handle, 'e) go" where
  "ServerKey_Xor E s lhs rhs w =
     (case deref w s of
        None \<Rightarrow> (Inl (ErrNew ''server key is nil''), w)
      | Some sk \<Rightarrow>
          (case (deref w lhs, deref w rhs) of
             (Some l, Some r) \<Rightarrow>
               bindE (checked E (boolean_server_key_xor sk l r) ''boolean XOR'')
                 (\<lambda>r. wrap (optr r)) w
           | _ \<Rightarrow> (Inl (ErrNew ''ciphertext is nil''), w)))"

definition ServerKey_Not :: "'e engine \<Rightarrow> handle \<Rightarrow> handle \<Rightarrow> (handle, 'e) go" where
  "ServerKey_Not E s input w =
     (case deref w s of
        None \<Rightarrow> (Inl (ErrNew ''server key is nil''), w)
      | Some sk \<Rightarrow>
          (case deref w input of
             None \<Rightarrow> (Inl (ErrNew ''ciphertext is nil''), w)
           | Some p \<Rightarrow>
               bindE (checked E (boolean_server_key_not sk p) ''boolean NOT'')
                 (\<lambda>r. wrap (optr r)) w))"

text \<open>
  \<open>C.GoBytes(p, C.int(length))\<close>: the length is cut to the 32 bits of a C \<open>int\<close> and read
  as signed; a negative length panics, a shorter one copies the prefix of that length.
  \<open>&data[0]\<close> panics on an empty slice.
\<close>

definition C_int :: "nat \<Rightarrow> int" where
  "C_int n = sint (word_of_nat n :: 32 word)"

definition GoBytes :: "byte list \<Rightarrow> int \<Rightarrow> err + byte list" where
  "GoBytes buf n =
     (if n < 0 then Inl (Panic ''gobytes: length out of range'') else Inr (take (nat n) buf))"

definition addr0 :: "byte list \<Rightarrow> err + unit" where
  "addr0 data =
     (case data of [] \<Rightarrow> Inl (Panic ''index out of range [0] with length 0'') | _ # _ \<Rightarrow> Inr ())"

definition Ciphertext_Serialize :: "'e engine \<Rightarrow> handle \<Rightarrow> (byte list, 'e) go" where
  "Ciphertext_Serialize E c w =
     (case deref w c of
        None \<Rightarrow> (Inl (ErrNew ''ciphertext is nil''), w)
      | Some p \<Rightarrow>
          bindE (checked E (boolean_serialize_ciphertext p) ''serialize ciphertext'') (\<lambda>r.
            deferring (\<lambda>w'. snd (ccall E (destroy_dynamic_buffer (obuf r)) w'))
              (\<lambda>w'. (if length (obuf r) = 0 then Inr []
                       else GoBytes (obuf r) (C_int (length (obuf r))), w'))) w)"

definition DeserializeCiphertext :: "'e engine \<Rightarrow> byte list \<Rightarrow> (handle, 'e) go" where
  "DeserializeCiphertext E data w =
     (if length data = 0 then (Inl (ErrNew ''ciphertext data is empty''), w)
      else case addr0 data of
             Inl e \<Rightarrow> (Inl e, w)
           | Inr _ \<Rightarrow>
               bindE (checked E (boolean_deserialize_ciphertext data) ''deserialize ciphertext'')
                 (\<lambda>r. wrap (optr r)) w)"

section \<open>The integer family of the cgo bindings\<close>

text \<open>\<open>defaultUint8ServerKeyHolder\<close> is the field \<open>holder\<close> of the world.\<close>

definition setServerKeyHolder :: "handle \<Rightarrow> 'e world \<Rightarrow> 'e world" where
  "setServerKeyHolder sk w = w\<lparr>holder := sk\<rparr>"

definition defaultUint8ServerKey :: "'e world \<Rightarrow> handle" where
  "defaultUint8ServerKey w = holder w"

text \<open>
  The deferred calls of \<open>withServerKey\<close> run last registered first: \<open>unset_server_key\<close>,
  then \<open>UnlockOSThread\<close>.  The closure \<open>fn\<close> hands back what the Go closure stores in the
  variable it captured.
\<close>

definition withServerKey :: "'e engine \<Rightarrow> handle \<Rightarrow> ('a, 'e) go \<Rightarrow> ('a, 'e) go" where
  "withServerKey E sk fn w =
     (case deref w sk of
        None \<Rightarrow> (Inl (ErrNew ''server key is nil''), w)
      | Some p \<Rightarrow>
          deferring (emit UnlockOSThread)
            (bindE (checked E (set_server_key p) ''set server key'') (\<lambda>_.
               deferring (\<lambda>w'. snd (ccall E unset_server_key w')) fn))
            (emit LockOSThread w))"

definition GenerateUint8Keys :: "'e engine \<Rightarrow> (handle \<times> handle, 'e) go" where
  "GenerateUint8Keys E =
     bindE (checked E config_builder_default ''config builder default'') (\<lambda>rb.
     bindE (checked E (config_builder_build (optr rb)) ''config builder build'') (\<lambda>rc.
     bindE (checked E (generate_keys (optr rc)) ''generate keys'') (\<lambda>rk.
     bindE (checked E (set_server_key (optr2 rk)) ''set server key'') (\<lambda>_.
     bindE (wrap (optr rk)) (\<lambda>client.
     bindE (wrap (optr2 rk)) (\<lambda>server w.
       (Inr (client, server), setServerKeyHolder server w)))))))"

definition Uint8ClientKey_Close :: "'e engine \<Rightarrow> handle \<Rightarrow> 'e world \<Rightarrow> err option \<times> 'e world" where
  "Uint8ClientKey_Close E c w =
     (case deref w c of
        None \<Rightarrow> (None, w)
      | Some p \<Rightarrow>
          (case checked E (client_key_destroy p) ''destroy client key'' w of
             (Inl e, w') \<Rightarrow> (Some e, w')
           | (Inr _, w') \<Rightarrow> (None, clear_ptr c w')))"

definition Uint8ServerKey_Close :: "'e engine \<Rightarrow> handle \<Rightarrow> 'e world \<Rightarrow> err option \<times> 'e world" where
  "Uint8ServerKey_Close E s w =
     (case deref w s of
        None \<Rightarrow> (None, w)
      | Some p \<Rightarrow>
          (case checked E (server_key_destroy p) ''destroy server key''
                  (snd (checked E unset_server_key ''unset server key'' w)) of
             (Inl e, w') \<Rightarrow> (Some e, w')
           | (Inr _, w') \<Rightarrow> (None, clear_ptr s w')))"

definition NewUint8PublicKey :: "'e engine \<Rightarrow> handle \<Rightarrow> (handle, 'e) go" where
  "NewUint8PublicKey E client w =
     (case deref w client of
        None \<Rightarrow> (Inl (ErrNew ''client key is nil''), w)
      | Some ck \<Rightarrow>
          bindE (checked E (public_key_new ck) ''new public key'') (\<lambda>r. wrap (optr r)) w)"

definition Uint8PublicKey_Close :: "'e engine \<Rightarrow> handle \<Rightarrow> 'e world \<Rightarrow> err option \<times> 'e world" where
  "Uint8PublicKey_Close E p w =
     (case deref w p of
        None \<Rightarrow> (None, w)
      | Some pk \<Rightarrow>
          (case checked E (public_key_destroy pk) ''destroy public key'' w of
             (Inl e, w') \<Rightarrow> (Some e, w')
           | (Inr _, w') \<Rightarrow> (None, clear_ptr p w')))"

definition EncryptUint8 :: "'e engine \<Rightarrow> handle \<Rightarrow> byte \<Rightarrow> (handle, 'e) go" where
  "EncryptUint8 E client v w =
     (case deref w client of
        None \<Rightarrow> (Inl (ErrNew ''client key is nil''), w)
      | Some ck \<Rightarrow>
          bindE (checked E (fhe_uint8_try_encrypt_with_client_key_u8 v ck) ''encrypt uint8'')
            (\<lambda>r. wrap (optr r)) w)"

definition EncryptUint8Public :: "'e engine \<Rightarrow> handle \<Rightarrow> byte \<Rightarrow> (handle, 'e) go" where
  "EncryptUint8Public E pub v w =
     (case deref w pub of
        None \<Rightarrow> (Inl (ErrNew ''public key is nil''), w)
      | Some pk \<Rightarrow>
          bindE (checked E (fhe_uint8_try_encrypt_with_public_key_u8 v pk)
                   ''encrypt uint8 with public key'')
            (\<lambda>r. wrap (optr r)) w)"

definition DecryptUint8 :: "'e engine \<Rightarrow> handle \<Rightarrow> handle \<Rightarrow> (byte, 'e) go" where
  "DecryptUint8 E client ct w =
     (case deref w client of
        None \<Rightarrow> (Inl (ErrNew ''client key is nil''), w)
      | Some ck \<Rightarrow>
          (case deref w ct of
             None \<Rightarrow> (Inl (ErrNew ''ciphertext is nil''), w)
           | Some p \<Rightarrow>
               bindE (checked E (fhe_uint8_decrypt p ck) ''decrypt uint8'')
                 (\<lambda>r w'. (Inr (obyte r), w')) w))"

definition Uint8Ciphertext_Close :: "'e engine \<Rightarrow> handle \<Rightarrow> 'e world \<Rightarrow> err option \<times> 'e world" where
  "Uint8Ciphertext_Close E c w =
     (case deref w c of
        None \<Rightarrow> (None, w)
      | Some p \<Rightarrow>
          (case checked E (fhe_uint8_destroy p) ''destroy uint8 ciphertext'' w of
             (Inl e, w') \<Rightarrow> (Some e, w')
           | (Inr _, w') \<Rightarrow> (None, clear_ptr c w')))"

definition Uint8Add :: "'e engine \<Rightarrow> handle \<Rightarrow> handle \<Rightarrow> (handle, 'e) go" where
  "Uint8Add E lhs rhs w =
     (case (deref w lhs, deref w rhs) of
        (Some l, Some r) \<Rightarrow>
          bindE (withServerKey E (defaultUint8ServerKey w)
                   (checked E (fhe_uint8_add l r) ''uint8 add''))
            (\<lambda>r. wrap (optr r)) w
      | _ \<Rightarrow> (Inl (ErrNew ''ciphertext is nil''), w))"

definition Uint8BitAnd :: "'e engine \<Rightarrow> handle \<Rightarrow> handle \<Rightarrow> (handle, 'e) go" where
  "Uint8BitAnd E lhs rhs w =
     (case (deref w lhs, deref w rhs) of
        (Some l, Some r) \<Rightarrow>
          bindE (withServerKey E (defaultUint8ServerKey w)
                   (checked E (fhe_uint8_bitand l r) ''uint8 bitand''))
            (\<lambda>r. wrap (optr r)) w
      | _ \<Rightarrow> (Inl (ErrNew ''ciphertext is nil''), w))"

definition Uint8BitXor :: "'e engine \<Rightarrow> handle \<Rightarrow> handle \<Rightarrow> (handle, 'e) go" where
  "Uint8BitXor E lhs rhs w =
     (case (deref w lhs, deref w rhs) of
        (Some l, Some r) \<Rightarrow>
          bindE (withServerKey E (defaultUint8ServerKey w)
                   (checked E (fhe_uint8_bitxor l r) ''uint8 bitxor''))
            (\<lambda>r. wrap (optr r)) w
      | _ \<Rightarrow> (Inl (ErrNew ''ciphertext is nil''), w))"

definition Uint8Serialize :: "'e engine \<Rightarrow> handle \<Rightarrow> (byte list, 'e) go" where
  "Uint8Serialize E c w =
     (case deref w c of
        None \<Rightarrow> (Inl (ErrNew ''ciphertext is nil''), w)
      | Some p \<Rightarrow>
          bindE (checked E (fhe_uint8_serialize p) ''serialize uint8 ciphertext'') (\<lambda>r.
            deferring (\<lambda>w'. snd (ccall E (destroy_dynamic_buffer (obuf r)) w'))
              (\<lambda>w'. (if length (obuf r) = 0 then Inr []
                       else GoBytes (obuf r) (C_int (length (obuf r))), w'))) w)"

definition Uint8Deserialize :: "'e engine \<Rightarrow> byte list \<Rightarrow> (handle, 'e) go" where
  "Uint8Deserialize E data w =
     (if length data = 0 then (Inl (ErrNew ''ciphertext data is empty''), w)
      else case addr0 data of
             Inl e \<Rightarrow> (Inl e, w)
           | Inr _ \<Rightarrow>
               bindE (checked E (fhe_uint8_deserialize data) ''deserialize uint8 ciphertext'')
                 (\<lambda>r. wrap (optr r)) w)"

section \<open>Base64, as \<open>base64.StdEncoding\<close> does it\<close>

text \<open>
  The standard alphabet with \<open>=\<close> padding.  Decoding skips carriage returns and line
  feeds, wants whole quanta of four characters, allows padding only at the end of the last
  one, and does not look at the unused low bits of a padded quantum.
\<close>

definition encodeStd :: string where
  "encodeStd = ''ABCDEFGHIJKLMNOPQRSTUVWXYZabcdefghijklmnopqrstuvwxyz0123456789+/''"

definition enc6 :: "nat \<Rightarrow> char" where
  "enc6 i = encodeStd ! (i mod 64)"

fun index_of :: "char \<Rightarrow> string \<Rightarrow> nat option" where
  "index_of c [] = None"
| "index_of c (x # xs) = (if c = x then Some 0 else map_option Suc (index_of c xs))"

definition dec6 :: "char \<Rightarrow> nat option" where
  "dec6 c = index_of c encodeStd"

fun EncodeToString :: "byte list \<Rightarrow> string" where
  "EncodeToString [] = []"
| "EncodeToString [a] =
     [enc6 (unat a div 4), enc6 (unat a mod 4 * 16), CHR ''='', CHR ''='']"
| "EncodeToString [a, b] =
     [enc6 (unat a div 4), enc6 (unat a mod 4 * 16 + unat b div 16),
      enc6 (unat b mod 16 * 4), CHR ''='']"
| "EncodeToString (a # b # c # rest) =
     [enc6 (unat a div 4), enc6 (unat a mod 4 * 16 + unat b div 16),
      enc6 (unat b mod 16 * 4 + unat c div 64), enc6 (unat c mod 64)] @ EncodeToString rest"

definition byte0 :: "nat \<Rightarrow> nat \<Rightarrow> byte" where
  "byte0 p q = of_nat (p * 4 + q div 16)"

definition byte1 :: "nat \<Rightarrow> nat \<Rightarrow> byte" where
  "byte1 q r = of_nat (q mod 16 * 16 + r div 4)"

definition byte2 :: "nat \<Rightarrow> nat \<Rightarrow> byte" where
  "byte2 r s = of_nat (r mod 4 * 64 + s)"

fun decode_quanta :: "string \<Rightarrow> byte list option" where
  "decode_quanta [] = Some []"
| "decode_quanta [w, x, y, z] =
     (case (dec6 w, dec6 x) of
        (Some p, Some q) \<Rightarrow>
          (if y = CHR ''='' \<and> z = CHR ''='' then Some [byte0 p q]
           else case dec6 y of
             None \<Rightarrow> None
           | Some r \<Rightarrow>
               (if z = CHR ''='' then Some [byte0 p q, byte1 q r]
                else case dec6 z of
                  None \<Rightarrow> None
                | Some s \<Rightarrow> Some [byte0 p q, byte1 q r, byte2 r s]))
      | _ \<Rightarrow> None)"
| "decode_quanta (w # x # y # z # rest) =
     (case (dec6 w, dec6 x, dec6 y, dec6 z) of
        (Some p, Some q, Some r, Some s) \<Rightarrow>
          map_option (\<lambda>bs. byte0 p q # byte1 q r # byte2 r s # bs) (decode_quanta rest)
      | _ \<Rightarrow> None)"
| "decode_quanta _ = None"

definition DecodeString :: "string \<Rightarrow> err + byte list" where
  "DecodeString s =
     (case decode_quanta (filter (\<lambda>c. c \<noteq> CHR 0x0A \<and> c \<noteq> CHR 0x0D) s) of
        None \<Rightarrow> Inl CorruptInputError
      | Some bs \<Rightarrow> Inr bs)"

section \<open>The services\<close>

record BooleanService =
  bs_client :: handle
  bs_server :: handle

record Uint8Service =
  us_client :: handle
  us_server :: handle
  us_public :: handle

definition NewBooleanService :: "'e engine \<Rightarrow> (BooleanService, 'e) go" where
  "NewBooleanService E =
     bindE (GenerateBooleanKeys E) (\<lambda>(ck, sk) w. (Inr \<lparr>bs_client = ck, bs_server = sk\<rparr>, w))"

definition serializeToBase64 :: "'e engine \<Rightarrow> handle \<Rightarrow> (string, 'e) go" where
  "serializeToBase64 E ct =
     bindE (Ciphertext_Serialize E ct) (\<lambda>bytes w. (Inr (EncodeToString bytes), w))"

definition deserialize :: "'e engine \<Rightarrow> string \<Rightarrow> (handle, 'e) go" where
  "deserialize E ctBase64 w =
     (if ctBase64 = [] then (Inl (ErrNew ''ciphertext is empty''), w)
      else case DecodeString ctBase64 of
             Inl e \<Rightarrow> (Inl e, w)
           | Inr raw \<Rightarrow> DeserializeCiphertext E raw w)"

definition EncryptBoolToBase64 :: "'e engine \<Rightarrow> BooleanService \<Rightarrow> bool \<Rightarrow> (string, 'e) go" where
  "EncryptBoolToBase64 E s v =
     bindE (EncryptBool E (bs_client s) v) (\<lambda>ct.
       deferring (\<lambda>w. snd (Ciphertext_Close E ct w))
         (bindE (Ciphertext_Serialize E ct) (\<lambda>bytes w. (Inr (EncodeToString bytes), w))))"

definition DecryptBoolFromBase64 :: "'e engine \<Rightarrow> BooleanService \<Rightarrow> string \<Rightarrow> (bool, 'e) go" where
  "DecryptBoolFromBase64 E s ctBase64 =
     bindE (deserialize E ctBase64) (\<lambda>ct.
       deferring (\<lambda>w. snd (Ciphertext_Close E ct w))
         (DecryptBool E (bs_client s) ct))"

definition binaryOp ::
  "'e engine \<Rightarrow> BooleanService \<Rightarrow> string \<Rightarrow> string \<Rightarrow> (handle \<Rightarrow> handle \<Rightarrow> (handle, 'e) go)
     \<Rightarrow> (string, 'e) go" where
  "binaryOp E s lhsBase64 rhsBase64 op =
     bindE (deserialize E lhsBase64) (\<lambda>lhs.
       deferring (\<lambda>w. snd (Ciphertext_Close E lhs w))
         (bindE (deserialize E rhsBase64) (\<lambda>rhs.
            deferring (\<lambda>w. snd (Ciphertext_Close E rhs w))
              (bindE (op lhs rhs) (\<lambda>out.
                 deferring (\<lambda>w. snd (Ciphertext_Close E out w))
                   (serializeToBase64 E out))))))"

definition AndBase64 :: "'e engine \<Rightarrow> BooleanService \<Rightarrow> string \<Rightarrow> string \<Rightarrow> (string, 'e) go" where
  "AndBase64 E s lhs rhs = binaryOp E s lhs rhs (ServerKey_And E (bs_server s))"

definition OrBase64 :: "'e engine \<Rightarrow> BooleanService \<Rightarrow> string \<Rightarrow> string \<Rightarrow> (string, 'e) go" where
  "OrBase64 E s lhs rhs = binaryOp E s lhs rhs (ServerKey_Or E (bs_server s))"

definition XorBase64 :: "'e engine \<Rightarrow> BooleanService \<Rightarrow> string \<Rightarrow> string \<Rightarrow> (string, 'e) go" where
  "XorBase64 E s lhs rhs = binaryOp E s lhs rhs (ServerKey_Xor E (bs_server s))"

definition NotBase64 :: "'e engine \<Rightarrow> BooleanService \<Rightarrow> string \<Rightarrow> (string, 'e) go" where
  "NotBase64 E s input =
     bindE (deserialize E input) (\<lambda>ct.
       deferring (\<lambda>w. snd (Ciphertext_Close E ct w))
         (bindE (ServerKey_Not E (bs_server s) ct) (\<lambda>out.
            deferring (\<lambda>w. snd (Ciphertext_Close E out w))
              (serializeToBase64 E out))))"

text \<open>
  \<open>Close\<close> keeps the first error it meets and sets the service's fields to \<open>nil\<close>; it
  returns the error, the service as it leaves it, and the world.
\<close>

definition BooleanService_Close ::
  "'e engine \<Rightarrow> BooleanService \<Rightarrow> 'e world \<Rightarrow> err option \<times> BooleanService \<times> 'e world" where
  "BooleanService_Close E s w =
     (let (err1, s1, w1) =
            (if bs_client s \<noteq> None
             then (case ClientKey_Close E (bs_client s) w of
                     (e, w') \<Rightarrow> (e, s\<lparr>bs_client := None\<rparr>, w'))
             else (None, s, w));
          (err2, s2, w2) =
            (if bs_server s1 \<noteq> None
             then (case ServerKey_Close E (bs_server s1) w1 of
                     (cerr, w') \<Rightarrow>
                       ((if err1 = None then cerr else err1), s1\<lparr>bs_server := None\<rparr>, w'))
             else (err1, s1, w1))
      in (err2, s2, w2))"

definition NewUint8Service :: "'e engine \<Rightarrow> (Uint8Service, 'e) go" where
  "NewUint8Service E =
     bindE (GenerateUint8Keys E) (\<lambda>(ck, sk).
     bindE (NewUint8PublicKey E ck) (\<lambda>pk w.
       (Inr \<lparr>us_client = ck, us_server = sk, us_public = pk\<rparr>, w)))"

definition serializeUint8ToBase64 :: "'e engine \<Rightarrow> handle \<Rightarrow> (string, 'e) go" where
  "serializeUint8ToBase64 E ct =
     bindE (Uint8Serialize E ct) (\<lambda>bytes w. (Inr (EncodeToString bytes), w))"

definition deserializeUint8 :: "'e engine \<Rightarrow> string \<Rightarrow> (handle, 'e) go" where
  "deserializeUint8 E ctBase64 w =
     (if ctBase64 = [] then (Inl (ErrNew ''ciphertext is empty''), w)
      else case DecodeString ctBase64 of
             Inl e \<Rightarrow> (Inl e, w)
           | Inr raw \<Rightarrow> Uint8Deserialize E raw w)"

definition Uint8Service_Encrypt :: "'e engine \<Rightarrow> Uint8Service \<Rightarrow> byte \<Rightarrow> (string, 'e) go" where
  "Uint8Service_Encrypt E s v =
     bindE (EncryptUint8 E (us_client s) v) (\<lambda>ct.
       deferring (\<lambda>w. snd (Uint8Ciphertext_Close E ct w))
         (serializeUint8ToBase64 E ct))"

definition Uint8Service_EncryptWithPublic ::
  "'e engine \<Rightarrow> Uint8Service \<Rightarrow> byte \<Rightarrow> (string, 'e) go" where
  "Uint8Service_EncryptWithPublic E s v =
     bindE (EncryptUint8Public E (us_public s) v) (\<lambda>ct.
       deferring (\<lambda>w. snd (Uint8Ciphertext_Close E ct w))
         (serializeUint8ToBase64 E ct))"

definition Uint8Service_Decrypt :: "'e engine \<Rightarrow> Uint8Service \<Rightarrow> string \<Rightarrow> (byte, 'e) go" where
  "Uint8Service_Decrypt E s ctBase64 =
     bindE (deserializeUint8 E ctBase64) (\<lambda>ct.
       deferring (\<lambda>w. snd (Uint8Ciphertext_Close E ct w))
         (DecryptUint8 E (us_client s) ct))"

definition binaryUint8 ::
  "'e engine \<Rightarrow> Uint8Service \<Rightarrow> string \<Rightarrow> string \<Rightarrow> (handle \<Rightarrow> handle \<Rightarrow> (handle, 'e) go)
     \<Rightarrow> (string, 'e) go" where
  "binaryUint8 E s lhsBase64 rhsBase64 op =
     bindE (deserializeUint8 E lhsBase64) (\<lambda>lhs.
       deferring (\<lambda>w. snd (Uint8Ciphertext_Close E lhs w))
         (bindE (deserializeUint8 E rhsBase64) (\<lambda>rhs.
            deferring (\<lambda>w. snd (Uint8Ciphertext_Close E rhs w))
              (bindE (op lhs rhs) (\<lambda>out.
                 deferring (\<lambda>w. snd (Uint8Ciphertext_Close E out w))
                   (serializeUint8ToBase64 E out))))))"

definition Uint8Service_Add ::
  "'e engine \<Rightarrow> Uint8Service \<Rightarrow> string \<Rightarrow> string \<Rightarrow> (string, 'e) go" where
  "Uint8Service_Add E s lhs rhs = binaryUint8 E s lhs rhs (Uint8Add E)"

definition Uint8Service_BitAnd ::
  "'e engine \<Rightarrow> Uint8Service \<Rightarrow> string \<Rightarrow> string \<Rightarrow> (string, 'e) go" where
  "Uint8Service_BitAnd E s lhs rhs = binaryUint8 E s lhs rhs (Uint8BitAnd E)"

definition Uint8Service_BitXor ::
  "'e engine \<Rightarrow> Uint8Service \<Rightarrow> string \<Rightarrow> string \<Rightarrow> (string, 'e) go" where
  "Uint8Service_BitXor E s lhs rhs = binaryUint8 E s lhs rhs (Uint8BitXor E)"


section \<open>An ideal engine\<close>

text \<open>
  Modelled from the spec: the encryption engine (\<open>libtfhe\<close>, reached through \<open>tfhe.h\<close>) is
  not part of the sources.  The spec treats it as a black box with a fixed operation set,
  every operation fallible and answering with a status code; a homomorphic operation is
  "a computation performed directly on ciphertexts whose decrypted result equals the same
  computation on the corresponding plaintexts"; serialization is lossless; the integer
  family reads an ambient server key that \<open>set_server_key\<close> registers and
  \<open>unset_server_key\<close> removes.  The ideal engine keeps a table of live objects; a
  ciphertext object carries its plaintext; keys have no identity beyond their kind; a call
  on a pointer that is not a live object of the right kind answers status 1.
\<close>

datatype obj =
    OBooleanClientKey
  | OBooleanServerKey
  | OBooleanCiphertext bool
  | OConfigBuilder
  | OConfig
  | OClientKey
  | OServerKey
  | OPublicKey
  | OFheUint8 byte

record ideal =
  objs :: "(cptr \<times> obj) list"
  ambient :: bool

fun top :: "(cptr \<times> obj) list \<Rightarrow> cptr" where
  "top [] = 0"
| "top ((p, _) # os) = max p (top os)"

definition alloc :: "obj \<Rightarrow> ideal \<Rightarrow> cptr \<times> ideal" where
  "alloc ob e = (Suc (top (objs e)), e\<lparr>objs := (Suc (top (objs e)), ob) # objs e\<rparr>)"

definition free :: "cptr \<Rightarrow> ideal \<Rightarrow> ideal" where
  "free p e = e\<lparr>objs := filter (\<lambda>(q, _). q \<noteq> p) (objs e)\<rparr>"

definition lookup :: "ideal \<Rightarrow> cptr \<Rightarrow> obj option" where
  "lookup e p = map_of (objs e) p"

definition ok :: reply where
  "ok = \<lparr>status = 0, optr = 0, optr2 = 0, obool = False, obyte = 0, obuf = []\<rparr>"

definition failed :: reply where
  "failed = ok\<lparr>status := 1\<rparr>"

definition fresh :: "obj \<Rightarrow> ideal \<Rightarrow> reply \<times> ideal" where
  "fresh ob e = (case alloc ob e of (p, e') \<Rightarrow> (ok\<lparr>optr := p\<rparr>, e'))"

definition destroy :: "(obj \<Rightarrow> bool) \<Rightarrow> cptr \<Rightarrow> ideal \<Rightarrow> reply \<times> ideal" where
  "destroy kind p e =
     (case lookup e p of
        Some ob \<Rightarrow> if kind ob then (ok, free p e) else (failed, e)
      | None \<Rightarrow> (failed, e))"

definition gate :: "(bool \<Rightarrow> bool \<Rightarrow> bool) \<Rightarrow> cptr \<Rightarrow> cptr \<Rightarrow> cptr \<Rightarrow> ideal \<Rightarrow> reply \<times> ideal" where
  "gate f sk l r e =
     (case (lookup e sk, lookup e l, lookup e r) of
        (Some OBooleanServerKey, Some (OBooleanCiphertext a), Some (OBooleanCiphertext b)) \<Rightarrow>
          fresh (OBooleanCiphertext (f a b)) e
      | _ \<Rightarrow> (failed, e))"

definition arith :: "(byte \<Rightarrow> byte \<Rightarrow> byte) \<Rightarrow> cptr \<Rightarrow> cptr \<Rightarrow> ideal \<Rightarrow> reply \<times> ideal" where
  "arith f l r e =
     (case (ambient e, lookup e l, lookup e r) of
        (True, Some (OFheUint8 a), Some (OFheUint8 b)) \<Rightarrow> fresh (OFheUint8 (f a b)) e
      | _ \<Rightarrow> (failed, e))"

text \<open>
  Modelled from the spec: the operations of the engine, which the sources only declare
  (through \<open>tfhe.h\<close>) and call.  Key generation, encryption, the gates, deserialization
  and public-key derivation create a new object; decryption reads the plaintext of a
  ciphertext; a gate or an arithmetic operation creates the ciphertext of the result
  computed on the plaintexts; the arithmetic needs an ambient server key; serialization
  writes a tag and the plaintext, and deserialization accepts exactly such bytes.
\<close>

fun ideal_engine :: "ideal engine" where
  "ideal_engine boolean_gen_keys_with_default_parameters e =
     (case alloc OBooleanClientKey e of (ck, e1) \<Rightarrow>
        case alloc OBooleanServerKey e1 of (sk, e2) \<Rightarrow> (ok\<lparr>optr := ck, optr2 := sk\<rparr>, e2))"
| "ideal_engine (boolean_destroy_client_key p) e = destroy (\<lambda>ob. ob = OBooleanClientKey) p e"
| "ideal_engine (boolean_destroy_server_key p) e = destroy (\<lambda>ob. ob = OBooleanServerKey) p e"
| "ideal_engine (boolean_destroy_ciphertext p) e =
     destroy (\<lambda>ob. case ob of OBooleanCiphertext _ \<Rightarrow> True | _ \<Rightarrow> False) p e"
| "ideal_engine (boolean_client_key_encrypt ck v) e =
     (case lookup e ck of
        Some OBooleanClientKey \<Rightarrow> fresh (OBooleanCiphertext v) e
      | _ \<Rightarrow> (failed, e))"
| "ideal_engine (boolean_client_key_decrypt ck ct) e =
     (case (lookup e ck, lookup e ct) of
        (Some OBooleanClientKey, Some (OBooleanCiphertext v)) \<Rightarrow> (ok\<lparr>obool := v\<rparr>, e)
      | _ \<Rightarrow> (failed, e))"
| "ideal_engine (boolean_server_key_and sk l r) e = gate (\<lambda>a b. a \<and> b) sk l r e"
| "ideal_engine (boolean_server_key_or sk l r) e = gate (\<lambda>a b. a \<or> b) sk l r e"
| "ideal_engine (boolean_server_key_xor sk l r) e = gate (\<lambda>a b. a \<noteq> b) sk l r e"
| "ideal_engine (boolean_server_key_not sk p) e =
     (case (lookup e sk, lookup e p) of
        (Some OBooleanServerKey, Some (OBooleanCiphertext a)) \<Rightarrow>
          fresh (OBooleanCiphertext (\<not> a)) e
      | _ \<Rightarrow> (failed, e))"
| "ideal_engine (boolean_serialize_ciphertext p) e =
     (case lookup e p of
        Some (OBooleanCiphertext v) \<Rightarrow> (ok\<lparr>obuf := [0x42, if v then 1 else 0]\<rparr>, e)
      | _ \<Rightarrow> (failed, e))"
| "ideal_engine (boolean_deserialize_ciphertext bs) e =
     (if bs = [0x42, 0] then fresh (OBooleanCiphertext False) e
      else if bs = [0x42, 1] then fresh (OBooleanCiphertext True) e
      else (failed, e))"
| "ideal_engine (destroy_dynamic_buffer _) e = (ok, e)"
| "ideal_engine config_builder_default e = fresh OConfigBuilder e"
| "ideal_engine (config_builder_build b) e =
     (case lookup e b of
        Some OConfigBuilder \<Rightarrow> fresh OConfig (free b e)
      | _ \<Rightarrow> (failed, e))"
| "ideal_engine (generate_keys c) e =
     (case lookup e c of
        Some OConfig \<Rightarrow>
          (case alloc OClientKey (free c e) of (ck, e1) \<Rightarrow>
             case alloc OServerKey e1 of (sk, e2) \<Rightarrow> (ok\<lparr>optr := ck, optr2 := sk\<rparr>, e2))
      | _ \<Rightarrow> (failed, e))"
| "ideal_engine (set_server_key p) e =
     (case lookup e p of
        Some OServerKey \<Rightarrow> (ok, e\<lparr>ambient := True\<rparr>)
      | _ \<Rightarrow> (failed, e))"
| "ideal_engine unset_server_key e = (ok, e\<lparr>ambient := False\<rparr>)"
| "ideal_engine (client_key_destroy p) e = destroy (\<lambda>ob. ob = OClientKey) p e"
| "ideal_engine (server_key_destroy p) e = destroy (\<lambda>ob. ob = OServerKey) p e"
| "ideal_engine (public_key_new ck) e =
     (case lookup e ck of
        Some OClientKey \<Rightarrow> fresh OPublicKey e
      | _ \<Rightarrow> (failed, e))"
| "ideal_engine (public_key_destroy p) e = destroy (\<lambda>ob. ob = OPublicKey) p e"
| "ideal_engine (fhe_uint8_try_encrypt_with_client_key_u8 v ck) e =
     (case lookup e ck of
        Some OClientKey \<Rightarrow> fresh (OFheUint8 v) e
      | _ \<Rightarrow> (failed, e))"
| "ideal_engine (fhe_uint8_try_encrypt_with_public_key_u8 v pk) e =
     (case lookup e pk of
        Some OPublicKey \<Rightarrow> fresh (OFheUint8 v) e
      | _ \<Rightarrow> (failed, e))"
| "ideal_engine (fhe_uint8_decrypt ct ck) e =
     (case (lookup e ck, lookup e ct) of
        (Some OClientKey, Some (OFheUint8 v)) \<Rightarrow> (ok\<lparr>obyte := v\<rparr>, e)
      | _ \<Rightarrow> (failed, e))"
| "ideal_engine (fhe_uint8_destroy p) e =
     destroy (\<lambda>ob. case ob of OFheUint8 _ \<Rightarrow> True | _ \<Rightarrow> False) p e"
| "ideal_engine (fhe_uint8_add l r) e = arith (\<lambda>a b. a + b) l r e"
| "ideal_engine (fhe_uint8_bitand l r) e = arith (\<lambda>a b. a AND b) l r e"
| "ideal_engine (fhe_uint8_bitxor l r) e = arith (\<lambda>a b. a XOR b) l r e"
| "ideal_engine (fhe_uint8_serialize p) e =
     (case lookup e p of
        Some (OFheUint8 v) \<Rightarrow> (ok\<lparr>obuf := [0x55, v]\<rparr>, e)
      | _ \<Rightarrow> (failed, e))"
| "ideal_engine (fhe_uint8_deserialize bs) e =
     (case bs of
        [t, v] \<Rightarrow> if t = 0x55 then fresh (OFheUint8 v) e else (failed, e)
      | _ \<Rightarrow> (failed, e))"

text \<open>The world at process start: no Go handle, no key in the holder, an empty engine.\<close>

definition world0 :: "ideal world" where
  "world0 = \<lparr>eng = \<lparr>objs = [], ambient = False\<rparr>, gheap = (\<lambda>_. 0), gnext = 0,
             holder = None, trace = []\<rparr>"

section \<open>Vocabulary of the properties\<close>

text \<open>A handle is Nil when it is \<open>nil\<close> or its \<open>ptr\<close> is: never created, or released.\<close>

definition is_nil :: "'e world \<Rightarrow> handle \<Rightarrow> bool" where
  "is_nil w h = (deref w h = None)"

text \<open>The events of a call: what the trace gained between two worlds.\<close>

definition since :: "'e world \<Rightarrow> 'e world \<Rightarrow> event list" where
  "since w w' = drop (length (trace w)) (trace w')"

text \<open>
  Releasing a Nil handle changes nothing and reports no error; after a release that
  reported no error, a second release of the same handle is of that kind.
\<close>

definition noop_when_released ::
  "(handle \<Rightarrow> 'e world \<Rightarrow> err option \<times> 'e world) \<Rightarrow> handle \<Rightarrow> 'e world \<Rightarrow> bool" where
  "noop_when_released close h w \<longleftrightarrow>
     (is_nil w h \<longrightarrow> close h w = (None, w)) \<and>
     (fst (close h w) = None \<longrightarrow> close h (snd (close h w)) = (None, snd (close h w)))"

text \<open>
  A world of the ideal engine in which one handle of each of the seven types is live:
  Go structs 0 to 6 are the boolean client key, server key and ciphertext, then the integer
  client key, server key, public key and ciphertext.
\<close>

definition world7 :: "ideal world" where
  "world7 =
     snd (bindE (GenerateBooleanKeys ideal_engine) (\<lambda>(bck, bsk).
          bindE (EncryptBool ideal_engine bck True) (\<lambda>_.
          bindE (GenerateUint8Keys ideal_engine) (\<lambda>(ck, sk).
          bindE (NewUint8PublicKey ideal_engine ck) (\<lambda>_.
            EncryptUint8 ideal_engine ck 7)))) world0)"

text \<open>\<open>world7\<close> after the integer server key has been closed: the holder keeps the closed key.\<close>

definition world7_closed :: "ideal world" where
  "world7_closed = snd (Uint8ServerKey_Close ideal_engine (Some 4) world7)"

text \<open>
  The errors of the deserialization path: the two emptiness errors, the base64 error and
  the engine's refusal of the bytes.  A panic is not among them.
\<close>

fun codec_error :: "err \<Rightarrow> bool" where
  "codec_error (ErrNew m) = (m = ''ciphertext is empty'' \<or> m = ''ciphertext data is empty'')"
| "codec_error (ErrTfhe context c) =
     (context = ''deserialize ciphertext'' \<or> context = ''deserialize uint8 ciphertext'')"
| "codec_error CorruptInputError = True"
| "codec_error (Panic m) = False"

fun is_panic :: "err + 'a \<Rightarrow> bool" where
  "is_panic (Inl (Panic m)) = True"
| "is_panic _ = False"

text \<open>The two services whose keys are the handles of \<open>world7\<close>.\<close>

definition bsvc7 :: BooleanService where
  "bsvc7 = \<lparr>bs_client = Some 0, bs_server = Some 1\<rparr>"

definition usvc7 :: Uint8Service where
  "usvc7 = \<lparr>us_client = Some 3, us_server = Some 4, us_public = Some 5\<rparr>"

text \<open>
  The context binder of one execution lane, read off the trace.  The goroutine is pinned
  by \<open>LockOSThread\<close> and unpinned by \<open>UnlockOSThread\<close>; while pinned, a
  \<open>set_server_key\<close> that answers 0 binds the ambient key and \<open>unset_server_key\<close>
  unbinds it.  A trace is refused (\<open>None\<close>) when it unpins a lane whose key is still bound,
  binds or unbinds outside a pinned section, pins twice, or calls an integer primitive with
  no key bound.
\<close>

datatype lane = Unpinned | Pinned | Bound

definition lane_step :: "lane \<Rightarrow> event \<Rightarrow> lane option" where
  "lane_step st ev =
     (case ev of
        LockOSThread \<Rightarrow> if st = Unpinned then Some Pinned else None
      | UnlockOSThread \<Rightarrow> if st = Pinned then Some Unpinned else None
      | Ccall c code \<Rightarrow>
          (case c of
             set_server_key p \<Rightarrow>
               if st = Pinned then Some (if code = 0 then Bound else Pinned) else None
           | unset_server_key \<Rightarrow> if st = Bound then Some Pinned else None
           | fhe_uint8_add l r \<Rightarrow> if st = Bound then Some Bound else None
           | fhe_uint8_bitand l r \<Rightarrow> if st = Bound then Some Bound else None
           | fhe_uint8_bitxor l r \<Rightarrow> if st = Bound then Some Bound else None
           | _ \<Rightarrow> Some st))"

fun lane_run :: "lane \<Rightarrow> event list \<Rightarrow> lane option" where
  "lane_run st [] = Some st"
| "lane_run st (ev # evs) =
     (case lane_step st ev of None \<Rightarrow> None | Some st' \<Rightarrow> lane_run st' evs)"

text \<open>The keys that a trace registers as ambient key, in order.\<close>

definition bound_key :: "event \<Rightarrow> cptr list" where
  "bound_key ev = (case ev of Ccall (set_server_key p) code \<Rightarrow> [p] | _ \<Rightarrow> [])"

definition bound_keys :: "event list \<Rightarrow> cptr list" where
  "bound_keys evs = concat (map bound_key evs)"

text \<open>
  A ciphertext pointer whose release the engine refused: the trace holds a destroy call on
  it that answered a non-zero status.
\<close>

definition refusal :: "cptr \<Rightarrow> event \<Rightarrow> bool" where
  "refusal p ev =
     (case ev of
        Ccall (boolean_destroy_ciphertext q) code \<Rightarrow> q = p \<and> code \<noteq> 0
      | Ccall (fhe_uint8_destroy q) code \<Rightarrow> q = p \<and> code \<noteq> 0
      | _ \<Rightarrow> False)"

definition refused :: "event list \<Rightarrow> cptr \<Rightarrow> bool" where
  "refused evs p = list_ex (refusal p) evs"

text \<open>
  Every Go handle created between two worlds has been released by the second one: its
  pointer is cleared, or the engine refused the destroy call that the release made.
\<close>

definition all_released :: "'e world \<Rightarrow> 'e world \<Rightarrow> bool" where
  "all_released w w' \<longleftrightarrow>
     (\<forall>h \<in> {gnext w ..< gnext w'}. gheap w' h = 0 \<or> refused (since w w') (gheap w' h))"

text \<open>The holder points to nothing or to a Go struct that has been allocated.\<close>

definition holder_ok :: "'e world \<Rightarrow> bool" where
  "holder_ok w = (case holder w of None \<Rightarrow> True | Some r \<Rightarrow> r < gnext w)"

text \<open>
  The summary of a piece of code that runs from \<open>w\<close> to \<open>w'\<close> and may leave the handles
  in \<open>X\<close> open: the holder and the structs that existed are untouched, the lane ends
  unpinned, only the holder's key was bound, and every other handle it created is released.
\<close>

definition goodx :: "goref set \<Rightarrow> 'e world \<Rightarrow> 'e world \<Rightarrow> bool" where
  "goodx X w w' \<longleftrightarrow>
     holder w' = holder w \<and> gnext w \<le> gnext w' \<and> (\<forall>r < gnext w. gheap w' r = gheap w r) \<and>
     (\<exists>d. trace w' = trace w @ d \<and> lane_run Unpinned d = Some Unpinned \<and>
          (holder_ok w \<longrightarrow> set (bound_keys d) \<subseteq> set_option (deref w (holder w))) \<and>
          (\<forall>h. gnext w \<le> h \<and> h < gnext w' \<and> h \<notin> X \<longrightarrow>
               gheap w' h = 0 \<or> refused d (gheap w' h)))"

text \<open>A function that creates at most one handle, the one it returns.\<close>

definition acquires :: "(handle, 'e) go \<Rightarrow> bool" where
  "acquires f \<longleftrightarrow>
     (\<forall>w. case f w of
            (Inl e, w') \<Rightarrow> goodx {} w w'
          | (Inr h, w') \<Rightarrow> goodx {gnext w} w w' \<and> h = Some (gnext w) \<and> gnext w' = Suc (gnext w))"

definition good :: "('a, 'e) go \<Rightarrow> bool" where
  "good f \<longleftrightarrow> (\<forall>w. goodx {} w (snd (f w)))"

text \<open>Calls that neither touch the ambient key nor need it.\<close>

definition plain :: "call \<Rightarrow> bool" where
  "plain c =
     (case c of
        set_server_key p \<Rightarrow> False
      | unset_server_key \<Rightarrow> False
      | fhe_uint8_add l r \<Rightarrow> False
      | fhe_uint8_bitand l r \<Rightarrow> False
      | fhe_uint8_bitxor l r \<Rightarrow> False
      | _ \<Rightarrow> True)"

text \<open>A step that only talks to the engine through plain calls: no Go struct changes.\<close>

definition plain_event :: "event \<Rightarrow> bool" where
  "plain_event ev = (case ev of Ccall c code \<Rightarrow> plain c | _ \<Rightarrow> False)"

definition quiet :: "'e world \<Rightarrow> 'e world \<Rightarrow> bool" where
  "quiet w w' \<longleftrightarrow>
     holder w' = holder w \<and> gnext w' = gnext w \<and> gheap w' = gheap w \<and>
     (\<exists>d. trace w' = trace w @ d \<and> list_all plain_event d)"

text \<open>What a release does, for the two \<open>Close\<close> methods of ciphertexts.\<close>

definition closer :: "(handle \<Rightarrow> 'e world \<Rightarrow> 'e world) \<Rightarrow> bool" where
  "closer cl \<longleftrightarrow>
     (\<forall>h w. holder (cl h w) = holder w \<and> gnext (cl h w) = gnext w \<and>
            (\<forall>r. h \<noteq> Some r \<longrightarrow> gheap (cl h w) r = gheap w r) \<and>
            (\<exists>d. trace (cl h w) = trace w @ d \<and> list_all plain_event d \<and>
                 (\<forall>r. h = Some r \<longrightarrow> gheap (cl h w) r = 0 \<or> refused d (gheap (cl h w) r))))"

text \<open>The requests that an integer service answers, and the world after answering them.\<close>

datatype request =
    Encrypt byte
  | EncryptWithPublic byte
  | Decrypt string
  | Add string string
  | BitAnd string string
  | BitXor string string

fun serve :: "'e engine \<Rightarrow> Uint8Service \<Rightarrow> request \<Rightarrow> 'e world \<Rightarrow> 'e world" where
  "serve E s (Encrypt v) w = snd (Uint8Service_Encrypt E s v w)"
| "serve E s (EncryptWithPublic v) w = snd (Uint8Service_EncryptWithPublic E s v w)"
| "serve E s (Decrypt c) w = snd (Uint8Service_Decrypt E s c w)"
| "serve E s (Add l r) w = snd (Uint8Service_Add E s l r w)"
| "serve E s (BitAnd l r) w = snd (Uint8Service_BitAnd E s l r w)"
| "serve E s (BitXor l r) w = snd (Uint8Service_BitXor E s l r w)"

fun serve_all :: "'e engine \<Rightarrow> Uint8Service \<Rightarrow> request list \<Rightarrow> 'e world \<Rightarrow> 'e world" where
  "serve_all E s [] w = w"
| "serve_all E s (q # qs) w = serve_all E s qs (serve E s q w)"

text \<open>
  Two integer services constructed one after the other on the ideal engine: \<open>svc_a\<close> in
  \<open>world_a\<close>, then \<open>svc_b\<close> in \<open>world_b\<close>; and \<open>svc_a\<close> closed right after its construction.
\<close>

definition svc_a :: Uint8Service where
  "svc_a = \<lparr>us_client = Some 0, us_server = Some 1, us_public = Some 2\<rparr>"

definition world_a :: "ideal world" where
  "world_a = snd (NewUint8Service ideal_engine world0)"

definition svc_b :: Uint8Service where
  "svc_b = \<lparr>us_client = Some 3, us_server = Some 4, us_public = Some 5\<rparr>"

definition world_b :: "ideal world" where
  "world_b = snd (NewUint8Service ideal_engine world_a)"




text \<open>
  On the ideal engine: a handle is live for an object when its Go struct is allocated and
  its pointer is that object in the engine's table.  A service is ready when its keys are
  live; for the integer service the server key is the one in the holder.
\<close>

definition live :: "ideal world \<Rightarrow> handle \<Rightarrow> obj \<Rightarrow> bool" where
  "live w h ob =
     (case h of
        None \<Rightarrow> False
      | Some r \<Rightarrow> r < gnext w \<and> gheap w r \<noteq> 0 \<and> lookup (eng w) (gheap w r) = Some ob)"

definition ready_bool :: "ideal world \<Rightarrow> BooleanService \<Rightarrow> bool" where
  "ready_bool w s \<longleftrightarrow>
     live w (bs_client s) OBooleanClientKey \<and> live w (bs_server s) OBooleanServerKey"

definition ready_u8 :: "ideal world \<Rightarrow> Uint8Service \<Rightarrow> bool" where
  "ready_u8 w s \<longleftrightarrow>
     live w (us_client s) OClientKey \<and> live w (defaultUint8ServerKey w) OServerKey \<and>
     live w (us_public s) OPublicKey"

text \<open>The bytes of the ideal engine's ciphertexts, as text.\<close>

definition bool_text :: "bool \<Rightarrow> string" where
  "bool_text v = EncodeToString [0x42, if v then 1 else 0]"

definition u8_text :: "byte \<Rightarrow> string" where
  "u8_text v = EncodeToString [0x55, v]"

section \<open>Releasing handles\<close>

lemma deref_clear_ptr: "deref (clear_ptr h w) h = None"
  by (cases h) simp_all

lemma noop_when_releasedI:
  assumes nil: "\<And>w. is_nil w h \<Longrightarrow> close h w = (None, w)"
    and rel: "\<And>w w'. close h w = (None, w') \<Longrightarrow> is_nil w' h"
  shows "noop_when_released close h w"
  unfolding noop_when_released_def
proof (intro conjI impI)
  assume "is_nil w h"
  then show "close h w = (None, w)" by (rule nil)
next
  assume "fst (close h w) = None"
  then have "close h w = (None, snd (close h w))" by (cases "close h w") simp
  then have "is_nil (snd (close h w)) h" by (rule rel)
  then show "close h (snd (close h w)) = (None, snd (close h w))" by (rule nil)
qed

lemma ClientKey_Close_noop: "noop_when_released (ClientKey_Close E) h w"
  by (rule noop_when_releasedI)
     (auto simp: is_nil_def ClientKey_Close_def deref_clear_ptr
           split: option.splits prod.splits sum.splits)

lemma ServerKey_Close_noop: "noop_when_released (ServerKey_Close E) h w"
  by (rule noop_when_releasedI)
     (auto simp: is_nil_def ServerKey_Close_def deref_clear_ptr
           split: option.splits prod.splits sum.splits)

lemma Ciphertext_Close_noop: "noop_when_released (Ciphertext_Close E) h w"
  by (rule noop_when_releasedI)
     (auto simp: is_nil_def Ciphertext_Close_def deref_clear_ptr
           split: option.splits prod.splits sum.splits)

lemma Uint8ClientKey_Close_noop: "noop_when_released (Uint8ClientKey_Close E) h w"
  by (rule noop_when_releasedI)
     (auto simp: is_nil_def Uint8ClientKey_Close_def deref_clear_ptr
           split: option.splits prod.splits sum.splits)

lemma Uint8ServerKey_Close_noop: "noop_when_released (Uint8ServerKey_Close E) h w"
  by (rule noop_when_releasedI)
     (auto simp: is_nil_def Uint8ServerKey_Close_def deref_clear_ptr
           split: option.splits prod.splits sum.splits)

lemma Uint8PublicKey_Close_noop: "noop_when_released (Uint8PublicKey_Close E) h w"
  by (rule noop_when_releasedI)
     (auto simp: is_nil_def Uint8PublicKey_Close_def deref_clear_ptr
           split: option.splits prod.splits sum.splits)

lemma Uint8Ciphertext_Close_noop: "noop_when_released (Uint8Ciphertext_Close E) h w"
  by (rule noop_when_releasedI)
     (auto simp: is_nil_def Uint8Ciphertext_Close_def deref_clear_ptr
           split: option.splits prod.splits sum.splits)

text \<open>
  C6.  For each of the seven handle types (client key, server key and ciphertext of the
  boolean family; client key, server key, public key and ciphertext of the integer family),
  whatever the engine does: \<open>Close\<close> on a Nil handle returns no error and leaves the world
  as it is, so no engine call is made; and when a \<open>Close\<close> has returned no error, a second
  \<open>Close\<close> of the same handle returns no error and changes nothing.
\<close>

theorem release_idempotent:
  "noop_when_released (ClientKey_Close E) h w \<and>
   noop_when_released (ServerKey_Close E) h w \<and>
   noop_when_released (Ciphertext_Close E) h w \<and>
   noop_when_released (Uint8ClientKey_Close E) h w \<and>
   noop_when_released (Uint8ServerKey_Close E) h w \<and>
   noop_when_released (Uint8PublicKey_Close E) h w \<and>
   noop_when_released (Uint8Ciphertext_Close E) h w"
  by (intro conjI ClientKey_Close_noop ServerKey_Close_noop Ciphertext_Close_noop
        Uint8ClientKey_Close_noop Uint8ServerKey_Close_noop Uint8PublicKey_Close_noop
        Uint8Ciphertext_Close_noop)

theorem release_idempotent_witness:
  "is_nil world7 None \<and> ClientKey_Close ideal_engine None world7 = (None, world7) \<and>
   \<not> is_nil world7 (Some 0) \<and> fst (ClientKey_Close ideal_engine (Some 0) world7) = None \<and>
   ClientKey_Close ideal_engine (Some 0) (snd (ClientKey_Close ideal_engine (Some 0) world7)) =
     (None, snd (ClientKey_Close ideal_engine (Some 0) world7)) \<and>
   \<not> is_nil world7 (Some 1) \<and> fst (ServerKey_Close ideal_engine (Some 1) world7) = None \<and>
   ServerKey_Close ideal_engine (Some 1) (snd (ServerKey_Close ideal_engine (Some 1) world7)) =
     (None, snd (ServerKey_Close ideal_engine (Some 1) world7)) \<and>
   \<not> is_nil world7 (Some 2) \<and> fst (Ciphertext_Close ideal_engine (Some 2) world7) = None \<and>
   Ciphertext_Close ideal_engine (Some 2) (snd (Ciphertext_Close ideal_engine (Some 2) world7)) =
     (None, snd (Ciphertext_Close ideal_engine (Some 2) world7)) \<and>
   \<not> is_nil world7 (Some 3) \<and> fst (Uint8ClientKey_Close ideal_engine (Some 3) world7) = None \<and>
   Uint8ClientKey_Close ideal_engine (Some 3)
       (snd (Uint8ClientKey_Close ideal_engine (Some 3) world7)) =
     (None, snd (Uint8ClientKey_Close ideal_engine (Some 3) world7)) \<and>
   \<not> is_nil world7 (Some 4) \<and> fst (Uint8ServerKey_Close ideal_engine (Some 4) world7) = None \<and>
   Uint8ServerKey_Close ideal_engine (Some 4)
       (snd (Uint8ServerKey_Close ideal_engine (Some 4) world7)) =
     (None, snd (Uint8ServerKey_Close ideal_engine (Some 4) world7)) \<and>
   \<not> is_nil world7 (Some 5) \<and> fst (Uint8PublicKey_Close ideal_engine (Some 5) world7) = None \<and>
   Uint8PublicKey_Close ideal_engine (Some 5)
       (snd (Uint8PublicKey_Close ideal_engine (Some 5) world7)) =
     (None, snd (Uint8PublicKey_Close ideal_engine (Some 5) world7)) \<and>
   \<not> is_nil world7 (Some 6) \<and> fst (Uint8Ciphertext_Close ideal_engine (Some 6) world7) = None \<and>
   Uint8Ciphertext_Close ideal_engine (Some 6)
       (snd (Uint8Ciphertext_Close ideal_engine (Some 6) world7)) =
     (None, snd (Uint8Ciphertext_Close ideal_engine (Some 6) world7))"
proof -
  have n: "is_nil world7 None"
    by (simp add: is_nil_def)
  have h0: "\<not> is_nil world7 (Some 0) \<and> fst (ClientKey_Close ideal_engine (Some 0) world7) = None"
    by code_simp
  have h1: "\<not> is_nil world7 (Some 1) \<and> fst (ServerKey_Close ideal_engine (Some 1) world7) = None"
    by code_simp
  have h2: "\<not> is_nil world7 (Some 2) \<and> fst (Ciphertext_Close ideal_engine (Some 2) world7) = None"
    by code_simp
  have h3: "\<not> is_nil world7 (Some 3) \<and>
            fst (Uint8ClientKey_Close ideal_engine (Some 3) world7) = None"
    by code_simp
  have h4: "\<not> is_nil world7 (Some 4) \<and>
            fst (Uint8ServerKey_Close ideal_engine (Some 4) world7) = None"
    by code_simp
  have h5: "\<not> is_nil world7 (Some 5) \<and>
            fst (Uint8PublicKey_Close ideal_engine (Some 5) world7) = None"
    by code_simp
  have h6: "\<not> is_nil world7 (Some 6) \<and>
            fst (Uint8Ciphertext_Close ideal_engine (Some 6) world7) = None"
    by code_simp
  have rn: "is_nil world7 None \<and> ClientKey_Close ideal_engine None world7 = (None, world7)"
    using n release_idempotent [where E = ideal_engine and h = None and w = world7]
    by (simp add: noop_when_released_def)
  have c0: "noop_when_released (ClientKey_Close ideal_engine) (Some 0) world7"
    and c1: "noop_when_released (ServerKey_Close ideal_engine) (Some 1) world7"
    and c2: "noop_when_released (Ciphertext_Close ideal_engine) (Some 2) world7"
    and c3: "noop_when_released (Uint8ClientKey_Close ideal_engine) (Some 3) world7"
    and c4: "noop_when_released (Uint8ServerKey_Close ideal_engine) (Some 4) world7"
    and c5: "noop_when_released (Uint8PublicKey_Close ideal_engine) (Some 5) world7"
    and c6: "noop_when_released (Uint8Ciphertext_Close ideal_engine) (Some 6) world7"
    using release_idempotent [where E = ideal_engine and h = "Some 0" and w = world7]
      release_idempotent [where E = ideal_engine and h = "Some 1" and w = world7]
      release_idempotent [where E = ideal_engine and h = "Some 2" and w = world7]
      release_idempotent [where E = ideal_engine and h = "Some 3" and w = world7]
      release_idempotent [where E = ideal_engine and h = "Some 4" and w = world7]
      release_idempotent [where E = ideal_engine and h = "Some 5" and w = world7]
      release_idempotent [where E = ideal_engine and h = "Some 6" and w = world7]
    by simp_all
  show ?thesis
    using rn h0 h1 h2 h3 h4 h5 h6
      c0 [unfolded noop_when_released_def, THEN conjunct2]
      c1 [unfolded noop_when_released_def, THEN conjunct2]
      c2 [unfolded noop_when_released_def, THEN conjunct2]
      c3 [unfolded noop_when_released_def, THEN conjunct2]
      c4 [unfolded noop_when_released_def, THEN conjunct2]
      c5 [unfolded noop_when_released_def, THEN conjunct2]
      c6 [unfolded noop_when_released_def, THEN conjunct2]
    by blast
qed

section \<open>Operations on Nil handles\<close>

lemma EncryptBool_nil:
  "is_nil w client \<Longrightarrow> EncryptBool E client v w = (Inl (ErrNew ''client key is nil''), w)"
  by (simp add: is_nil_def EncryptBool_def)

lemma DecryptBool_nil:
  "is_nil w client \<or> is_nil w ct \<Longrightarrow>
   DecryptBool E client ct w =
     (Inl (ErrNew (if is_nil w client then ''client key is nil'' else ''ciphertext is nil'')), w)"
  by (auto simp: is_nil_def DecryptBool_def split: option.splits)

lemma ServerKey_And_nil:
  "is_nil w s \<or> is_nil w lhs \<or> is_nil w rhs \<Longrightarrow>
   ServerKey_And E s lhs rhs w =
     (Inl (ErrNew (if is_nil w s then ''server key is nil'' else ''ciphertext is nil'')), w)"
  by (auto simp: is_nil_def ServerKey_And_def split: option.splits)

lemma ServerKey_Or_nil:
  "is_nil w s \<or> is_nil w lhs \<or> is_nil w rhs \<Longrightarrow>
   ServerKey_Or E s lhs rhs w =
     (Inl (ErrNew (if is_nil w s then ''server key is nil'' else ''ciphertext is nil'')), w)"
  by (auto simp: is_nil_def ServerKey_Or_def split: option.splits)

lemma ServerKey_Xor_nil:
  "is_nil w s \<or> is_nil w lhs \<or> is_nil w rhs \<Longrightarrow>
   ServerKey_Xor E s lhs rhs w =
     (Inl (ErrNew (if is_nil w s then ''server key is nil'' else ''ciphertext is nil'')), w)"
  by (auto simp: is_nil_def ServerKey_Xor_def split: option.splits)

lemma ServerKey_Not_nil:
  "is_nil w s \<or> is_nil w input \<Longrightarrow>
   ServerKey_Not E s input w =
     (Inl (ErrNew (if is_nil w s then ''server key is nil'' else ''ciphertext is nil'')), w)"
  by (auto simp: is_nil_def ServerKey_Not_def split: option.splits)

lemma Ciphertext_Serialize_nil:
  "is_nil w c \<Longrightarrow> Ciphertext_Serialize E c w = (Inl (ErrNew ''ciphertext is nil''), w)"
  by (simp add: is_nil_def Ciphertext_Serialize_def)

lemma NewUint8PublicKey_nil:
  "is_nil w client \<Longrightarrow> NewUint8PublicKey E client w = (Inl (ErrNew ''client key is nil''), w)"
  by (simp add: is_nil_def NewUint8PublicKey_def)

lemma EncryptUint8_nil:
  "is_nil w client \<Longrightarrow> EncryptUint8 E client v w = (Inl (ErrNew ''client key is nil''), w)"
  by (simp add: is_nil_def EncryptUint8_def)

lemma EncryptUint8Public_nil:
  "is_nil w pub \<Longrightarrow> EncryptUint8Public E pub v w = (Inl (ErrNew ''public key is nil''), w)"
  by (simp add: is_nil_def EncryptUint8Public_def)

lemma DecryptUint8_nil:
  "is_nil w client \<or> is_nil w ct \<Longrightarrow>
   DecryptUint8 E client ct w =
     (Inl (ErrNew (if is_nil w client then ''client key is nil'' else ''ciphertext is nil'')), w)"
  by (auto simp: is_nil_def DecryptUint8_def split: option.splits)

lemma withServerKey_nil:
  "is_nil w sk \<Longrightarrow> withServerKey E sk fn w = (Inl (ErrNew ''server key is nil''), w)"
  by (simp add: is_nil_def withServerKey_def)

lemma Uint8Add_nil:
  "is_nil w lhs \<or> is_nil w rhs \<or> is_nil w (defaultUint8ServerKey w) \<Longrightarrow>
   Uint8Add E lhs rhs w =
     (Inl (ErrNew (if is_nil w lhs \<or> is_nil w rhs then ''ciphertext is nil''
                   else ''server key is nil'')), w)"
  by (auto simp: is_nil_def Uint8Add_def withServerKey_def bindE_def split: option.splits)

lemma Uint8BitAnd_nil:
  "is_nil w lhs \<or> is_nil w rhs \<or> is_nil w (defaultUint8ServerKey w) \<Longrightarrow>
   Uint8BitAnd E lhs rhs w =
     (Inl (ErrNew (if is_nil w lhs \<or> is_nil w rhs then ''ciphertext is nil''
                   else ''server key is nil'')), w)"
  by (auto simp: is_nil_def Uint8BitAnd_def withServerKey_def bindE_def split: option.splits)

lemma Uint8BitXor_nil:
  "is_nil w lhs \<or> is_nil w rhs \<or> is_nil w (defaultUint8ServerKey w) \<Longrightarrow>
   Uint8BitXor E lhs rhs w =
     (Inl (ErrNew (if is_nil w lhs \<or> is_nil w rhs then ''ciphertext is nil''
                   else ''server key is nil'')), w)"
  by (auto simp: is_nil_def Uint8BitXor_def withServerKey_def bindE_def split: option.splits)

lemma Uint8Serialize_nil:
  "is_nil w c \<Longrightarrow> Uint8Serialize E c w = (Inl (ErrNew ''ciphertext is nil''), w)"
  by (simp add: is_nil_def Uint8Serialize_def)

text \<open>
  C7.  Whatever the engine does, every operation of the bindings that is given a Nil key or
  ciphertext handle (\<open>nil\<close>, or a struct whose pointer has been cleared by a release)
  returns an error that names the Nil handle and leaves the world as it is: no engine call
  is made, so the Nil handle is never passed on or dereferenced.  The operations are
  encryption and decryption in both families, the four gates, public-key derivation, both
  serializations, the context binding \<open>withServerKey\<close> and the three integer operations
  (whose server key is the one in the process-wide holder).
\<close>

theorem nil_handle_fails_fast:
  "(is_nil w client \<longrightarrow>
      EncryptBool E client v w = (Inl (ErrNew ''client key is nil''), w)) \<and>
   (is_nil w client \<or> is_nil w ct \<longrightarrow>
      DecryptBool E client ct w =
        (Inl (ErrNew (if is_nil w client then ''client key is nil''
                      else ''ciphertext is nil'')), w)) \<and>
   (is_nil w s \<or> is_nil w lhs \<or> is_nil w rhs \<longrightarrow>
      ServerKey_And E s lhs rhs w =
        (Inl (ErrNew (if is_nil w s then ''server key is nil'' else ''ciphertext is nil'')), w)) \<and>
   (is_nil w s \<or> is_nil w lhs \<or> is_nil w rhs \<longrightarrow>
      ServerKey_Or E s lhs rhs w =
        (Inl (ErrNew (if is_nil w s then ''server key is nil'' else ''ciphertext is nil'')), w)) \<and>
   (is_nil w s \<or> is_nil w lhs \<or> is_nil w rhs \<longrightarrow>
      ServerKey_Xor E s lhs rhs w =
        (Inl (ErrNew (if is_nil w s then ''server key is nil'' else ''ciphertext is nil'')), w)) \<and>
   (is_nil w s \<or> is_nil w ct \<longrightarrow>
      ServerKey_Not E s ct w =
        (Inl (ErrNew (if is_nil w s then ''server key is nil'' else ''ciphertext is nil'')), w)) \<and>
   (is_nil w ct \<longrightarrow>
      Ciphertext_Serialize E ct w = (Inl (ErrNew ''ciphertext is nil''), w)) \<and>
   (is_nil w uclient \<longrightarrow>
      NewUint8PublicKey E uclient w = (Inl (ErrNew ''client key is nil''), w)) \<and>
   (is_nil w uclient \<longrightarrow>
      EncryptUint8 E uclient u w = (Inl (ErrNew ''client key is nil''), w)) \<and>
   (is_nil w pub \<longrightarrow>
      EncryptUint8Public E pub u w = (Inl (ErrNew ''public key is nil''), w)) \<and>
   (is_nil w uclient \<or> is_nil w uct \<longrightarrow>
      DecryptUint8 E uclient uct w =
        (Inl (ErrNew (if is_nil w uclient then ''client key is nil''
                      else ''ciphertext is nil'')), w)) \<and>
   (is_nil w sk \<longrightarrow>
      withServerKey E sk fn w = (Inl (ErrNew ''server key is nil''), w)) \<and>
   (is_nil w ulhs \<or> is_nil w urhs \<or> is_nil w (defaultUint8ServerKey w) \<longrightarrow>
      Uint8Add E ulhs urhs w =
        (Inl (ErrNew (if is_nil w ulhs \<or> is_nil w urhs then ''ciphertext is nil''
                      else ''server key is nil'')), w)) \<and>
   (is_nil w ulhs \<or> is_nil w urhs \<or> is_nil w (defaultUint8ServerKey w) \<longrightarrow>
      Uint8BitAnd E ulhs urhs w =
        (Inl (ErrNew (if is_nil w ulhs \<or> is_nil w urhs then ''ciphertext is nil''
                      else ''server key is nil'')), w)) \<and>
   (is_nil w ulhs \<or> is_nil w urhs \<or> is_nil w (defaultUint8ServerKey w) \<longrightarrow>
      Uint8BitXor E ulhs urhs w =
        (Inl (ErrNew (if is_nil w ulhs \<or> is_nil w urhs then ''ciphertext is nil''
                      else ''server key is nil'')), w)) \<and>
   (is_nil w uct \<longrightarrow>
      Uint8Serialize E uct w = (Inl (ErrNew ''ciphertext is nil''), w))"
  by (intro conjI impI EncryptBool_nil DecryptBool_nil ServerKey_And_nil ServerKey_Or_nil
        ServerKey_Xor_nil ServerKey_Not_nil Ciphertext_Serialize_nil NewUint8PublicKey_nil
        EncryptUint8_nil EncryptUint8Public_nil DecryptUint8_nil withServerKey_nil
        Uint8Add_nil Uint8BitAnd_nil Uint8BitXor_nil Uint8Serialize_nil)

theorem nil_handle_fails_fast_witness:
  "is_nil world7_closed None \<and> is_nil world7_closed (Some 4) \<and>
   defaultUint8ServerKey world7_closed = Some 4 \<and>
   \<not> is_nil world7_closed (Some 0) \<and> \<not> is_nil world7_closed (Some 1) \<and>
   \<not> is_nil world7_closed (Some 2) \<and> \<not> is_nil world7_closed (Some 3) \<and>
   \<not> is_nil world7_closed (Some 6) \<and>
   EncryptBool ideal_engine None True world7_closed =
     (Inl (ErrNew ''client key is nil''), world7_closed) \<and>
   DecryptBool ideal_engine (Some 0) None world7_closed =
     (Inl (ErrNew ''ciphertext is nil''), world7_closed) \<and>
   ServerKey_And ideal_engine (Some 1) (Some 2) None world7_closed =
     (Inl (ErrNew ''ciphertext is nil''), world7_closed) \<and>
   ServerKey_Not ideal_engine None (Some 2) world7_closed =
     (Inl (ErrNew ''server key is nil''), world7_closed) \<and>
   Ciphertext_Serialize ideal_engine None world7_closed =
     (Inl (ErrNew ''ciphertext is nil''), world7_closed) \<and>
   DecryptUint8 ideal_engine (Some 3) None world7_closed =
     (Inl (ErrNew ''ciphertext is nil''), world7_closed) \<and>
   withServerKey ideal_engine (Some 4) (checked ideal_engine (fhe_uint8_add 7 7) ''uint8 add'')
       world7_closed =
     (Inl (ErrNew ''server key is nil''), world7_closed) \<and>
   Uint8Add ideal_engine (Some 6) (Some 6) world7_closed =
     (Inl (ErrNew ''server key is nil''), world7_closed)"
proof -
  have n: "is_nil world7_closed None"
    by (simp add: is_nil_def)
  have h: "is_nil world7_closed (Some 4) \<and> defaultUint8ServerKey world7_closed = Some 4 \<and>
           \<not> is_nil world7_closed (Some 0) \<and> \<not> is_nil world7_closed (Some 1) \<and>
           \<not> is_nil world7_closed (Some 2) \<and> \<not> is_nil world7_closed (Some 3) \<and>
           \<not> is_nil world7_closed (Some 6)"
    by code_simp
  show ?thesis
    using n h
      nil_handle_fails_fast [where E = ideal_engine and w = world7_closed
        and client = None and v = True and ct = None and s = None and lhs = None and rhs = None
        and uclient = None and u = 0 and pub = None and uct = None and sk = None
        and fn = "checked ideal_engine (fhe_uint8_add 7 7) ''uint8 add''"
        and ulhs = None and urhs = None]
      nil_handle_fails_fast [where E = ideal_engine and w = world7_closed
        and client = "Some 0" and v = True and ct = None and s = "Some 1" and lhs = "Some 2"
        and rhs = None and uclient = "Some 3" and u = 0 and pub = None and uct = None
        and sk = "Some 4" and fn = "checked ideal_engine (fhe_uint8_add 7 7) ''uint8 add''"
        and ulhs = "Some 6" and urhs = "Some 6"]
      nil_handle_fails_fast [where E = ideal_engine and w = world7_closed
        and client = None and v = True and ct = "Some 2" and s = None and lhs = None
        and rhs = None and uclient = None and u = 0 and pub = None and uct = None and sk = None
        and fn = "checked ideal_engine (fhe_uint8_add 7 7) ''uint8 add''"
        and ulhs = None and urhs = None]
    by simp
qed

section \<open>Deserialization of bad input\<close>

lemma DeserializeCiphertext_empty:
  "DeserializeCiphertext E [] w = (Inl (ErrNew ''ciphertext data is empty''), w)"
  by (simp add: DeserializeCiphertext_def)

lemma Uint8Deserialize_empty:
  "Uint8Deserialize E [] w = (Inl (ErrNew ''ciphertext data is empty''), w)"
  by (simp add: Uint8Deserialize_def)

lemma DeserializeCiphertext_refused:
  assumes "status (fst (E (boolean_deserialize_ciphertext d) (eng w))) \<noteq> 0"
  shows "fst (DeserializeCiphertext E d w) =
           Inl (if d = [] then ErrNew ''ciphertext data is empty''
                else ErrTfhe ''deserialize ciphertext''
                       (status (fst (E (boolean_deserialize_ciphertext d) (eng w)))))"
  using assms
  by (cases d)
     (auto simp: DeserializeCiphertext_def addr0_def bindE_def checked_def ccall_def
        check_def split: prod.splits)

lemma Uint8Deserialize_refused:
  assumes "status (fst (E (fhe_uint8_deserialize d) (eng w))) \<noteq> 0"
  shows "fst (Uint8Deserialize E d w) =
           Inl (if d = [] then ErrNew ''ciphertext data is empty''
                else ErrTfhe ''deserialize uint8 ciphertext''
                       (status (fst (E (fhe_uint8_deserialize d) (eng w)))))"
  using assms
  by (cases d)
     (auto simp: Uint8Deserialize_def addr0_def bindE_def checked_def ccall_def
        check_def split: prod.splits)

lemma DeserializeCiphertext_codec:
  "fst (DeserializeCiphertext E d w) = Inl e \<Longrightarrow> codec_error e"
  by (cases d)
     (auto simp: DeserializeCiphertext_def addr0_def bindE_def checked_def ccall_def
        check_def wrap_def split: prod.splits if_splits)

lemma Uint8Deserialize_codec:
  "fst (Uint8Deserialize E d w) = Inl e \<Longrightarrow> codec_error e"
  by (cases d)
     (auto simp: Uint8Deserialize_def addr0_def bindE_def checked_def ccall_def
        check_def wrap_def split: prod.splits if_splits)

lemma DecodeString_error: "DecodeString c = Inl e \<Longrightarrow> e = CorruptInputError \<and> c \<noteq> []"
  by (auto simp: DecodeString_def split: option.splits)

lemma deserialize_empty: "deserialize E [] w = (Inl (ErrNew ''ciphertext is empty''), w)"
  by (simp add: deserialize_def)

lemma deserializeUint8_empty:
  "deserializeUint8 E [] w = (Inl (ErrNew ''ciphertext is empty''), w)"
  by (simp add: deserializeUint8_def)

lemma deserialize_corrupt:
  "DecodeString c = Inl e \<Longrightarrow> deserialize E c w = (Inl CorruptInputError, w)"
  by (frule DecodeString_error) (simp add: deserialize_def)

lemma deserializeUint8_corrupt:
  "DecodeString c = Inl e \<Longrightarrow> deserializeUint8 E c w = (Inl CorruptInputError, w)"
  by (frule DecodeString_error) (simp add: deserializeUint8_def)

lemma deserialize_codec: "fst (deserialize E c w) = Inl e \<Longrightarrow> codec_error e"
  by (auto simp: deserialize_def dest: DeserializeCiphertext_codec DecodeString_error
        split: if_splits sum.splits)

lemma deserializeUint8_codec: "fst (deserializeUint8 E c w) = Inl e \<Longrightarrow> codec_error e"
  by (auto simp: deserializeUint8_def dest: Uint8Deserialize_codec DecodeString_error
        split: if_splits sum.splits)

lemma fst_deferring: "fst (deferring cleanup body w) = fst (body w)"
  by (simp add: deferring_def split: prod.splits)

lemma bindE_Inr: "m w = (Inr x, w') \<Longrightarrow> bindE m f w = f x w'"
  by (simp add: bindE_def)

lemma bindE_Inl: "m w = (Inl e, w') \<Longrightarrow> bindE m f w = (Inl e, w')"
  by (simp add: bindE_def)

lemma DecryptBoolFromBase64_empty:
  "DecryptBoolFromBase64 E s [] w = (Inl (ErrNew ''ciphertext is empty''), w)"
  by (simp add: DecryptBoolFromBase64_def bindE_Inl [OF deserialize_empty])

lemma Uint8Service_Decrypt_empty:
  "Uint8Service_Decrypt E s [] w = (Inl (ErrNew ''ciphertext is empty''), w)"
  by (simp add: Uint8Service_Decrypt_def bindE_Inl [OF deserializeUint8_empty])

lemma DecryptBoolFromBase64_corrupt:
  "DecodeString c = Inl e \<Longrightarrow> DecryptBoolFromBase64 E s c w = (Inl CorruptInputError, w)"
  by (simp add: DecryptBoolFromBase64_def bindE_Inl [OF deserialize_corrupt])

lemma Uint8Service_Decrypt_corrupt:
  "DecodeString c = Inl e \<Longrightarrow> Uint8Service_Decrypt E s c w = (Inl CorruptInputError, w)"
  by (simp add: Uint8Service_Decrypt_def bindE_Inl [OF deserializeUint8_corrupt])

lemma DecryptBool_no_panic: "\<not> is_panic (fst (DecryptBool E client ct w))"
  by (auto simp: DecryptBool_def bindE_def checked_def ccall_def check_def
        split: option.splits prod.splits)

lemma DecryptUint8_no_panic: "\<not> is_panic (fst (DecryptUint8 E client ct w))"
  by (auto simp: DecryptUint8_def bindE_def checked_def ccall_def check_def
        split: option.splits prod.splits)

lemma codec_error_no_panic: "codec_error e \<Longrightarrow> \<not> is_panic (Inl e)"
  by (cases e) simp_all

lemma DecryptBoolFromBase64_no_panic: "\<not> is_panic (fst (DecryptBoolFromBase64 E s c w))"
proof (cases "deserialize E c w")
  case (Pair r w1)
  show ?thesis
  proof (cases r)
    case (Inl e)
    with Pair have "codec_error e" using deserialize_codec [of E c w e] by simp
    with Pair Inl show ?thesis
      by (simp add: DecryptBoolFromBase64_def bindE_def codec_error_no_panic)
  next
    case (Inr ct)
    with Pair show ?thesis
      using DecryptBool_no_panic [of E "bs_client s" ct w1]
      by (simp add: DecryptBoolFromBase64_def bindE_Inr fst_deferring)
  qed
qed

lemma Uint8Service_Decrypt_no_panic: "\<not> is_panic (fst (Uint8Service_Decrypt E s c w))"
proof (cases "deserializeUint8 E c w")
  case (Pair r w1)
  show ?thesis
  proof (cases r)
    case (Inl e)
    with Pair have "codec_error e" using deserializeUint8_codec [of E c w e] by simp
    with Pair Inl show ?thesis
      by (simp add: Uint8Service_Decrypt_def bindE_def codec_error_no_panic)
  next
    case (Inr ct)
    with Pair show ?thesis
      using DecryptUint8_no_panic [of E "us_client s" ct w1]
      by (simp add: Uint8Service_Decrypt_def bindE_Inr fst_deferring)
  qed
qed

text \<open>
  C8.  Whatever the engine does: deserializing empty bytes fails with "ciphertext data is
  empty" and makes no engine call, in both families; at the service boundary an empty
  string fails with "ciphertext is empty" and a string that is not valid base64 fails with
  the base64 error, again without an engine call; bytes that the engine refuses fail with
  the engine's status under the deserialization context; every error of a deserialization
  is one of these codec errors, never a panic.  In particular decrypting the empty string
  and decrypting a string that is not base64 fail with these errors in both services, and
  no input makes a decryption panic.
\<close>

theorem bad_input_fails_with_codec_error:
  "DeserializeCiphertext E [] w = (Inl (ErrNew ''ciphertext data is empty''), w) \<and>
   Uint8Deserialize E [] w = (Inl (ErrNew ''ciphertext data is empty''), w) \<and>
   deserialize E [] w = (Inl (ErrNew ''ciphertext is empty''), w) \<and>
   deserializeUint8 E [] w = (Inl (ErrNew ''ciphertext is empty''), w) \<and>
   (DecodeString c = Inl e \<longrightarrow>
      deserialize E c w = (Inl CorruptInputError, w) \<and>
      deserializeUint8 E c w = (Inl CorruptInputError, w) \<and>
      DecryptBoolFromBase64 E bs c w = (Inl CorruptInputError, w) \<and>
      Uint8Service_Decrypt E us c w = (Inl CorruptInputError, w)) \<and>
   (status (fst (E (boolean_deserialize_ciphertext d) (eng w))) \<noteq> 0 \<longrightarrow>
      fst (DeserializeCiphertext E d w) =
        Inl (if d = [] then ErrNew ''ciphertext data is empty''
             else ErrTfhe ''deserialize ciphertext''
                    (status (fst (E (boolean_deserialize_ciphertext d) (eng w)))))) \<and>
   (status (fst (E (fhe_uint8_deserialize d) (eng w))) \<noteq> 0 \<longrightarrow>
      fst (Uint8Deserialize E d w) =
        Inl (if d = [] then ErrNew ''ciphertext data is empty''
             else ErrTfhe ''deserialize uint8 ciphertext''
                    (status (fst (E (fhe_uint8_deserialize d) (eng w)))))) \<and>
   (fst (DeserializeCiphertext E d w) = Inl e \<longrightarrow> codec_error e) \<and>
   (fst (Uint8Deserialize E d w) = Inl e \<longrightarrow> codec_error e) \<and>
   (fst (deserialize E c w) = Inl e \<longrightarrow> codec_error e) \<and>
   (fst (deserializeUint8 E c w) = Inl e \<longrightarrow> codec_error e) \<and>
   DecryptBoolFromBase64 E bs [] w = (Inl (ErrNew ''ciphertext is empty''), w) \<and>
   Uint8Service_Decrypt E us [] w = (Inl (ErrNew ''ciphertext is empty''), w) \<and>
   \<not> is_panic (fst (DecryptBoolFromBase64 E bs c w)) \<and>
   \<not> is_panic (fst (Uint8Service_Decrypt E us c w))"
  by (intro conjI impI DeserializeCiphertext_empty Uint8Deserialize_empty deserialize_empty
        deserializeUint8_empty DeserializeCiphertext_refused Uint8Deserialize_refused
        DecryptBoolFromBase64_empty Uint8Service_Decrypt_empty
        DecryptBoolFromBase64_no_panic Uint8Service_Decrypt_no_panic)
     (blast intro: deserialize_corrupt deserializeUint8_corrupt DecryptBoolFromBase64_corrupt
        Uint8Service_Decrypt_corrupt DeserializeCiphertext_codec Uint8Deserialize_codec
        deserialize_codec deserializeUint8_codec)+

theorem bad_input_fails_with_codec_error_witness:
  "DecodeString ''not-base64-or-empty-bytes'' = Inl CorruptInputError \<and>
   deserialize ideal_engine ''not-base64-or-empty-bytes'' world7 =
     (Inl CorruptInputError, world7) \<and>
   deserializeUint8 ideal_engine ''not-base64-or-empty-bytes'' world7 =
     (Inl CorruptInputError, world7) \<and>
   DecryptBoolFromBase64 ideal_engine bsvc7 ''not-base64-or-empty-bytes'' world7 =
     (Inl CorruptInputError, world7) \<and>
   Uint8Service_Decrypt ideal_engine usvc7 ''not-base64-or-empty-bytes'' world7 =
     (Inl CorruptInputError, world7) \<and>
   status (fst (ideal_engine (boolean_deserialize_ciphertext [1, 2, 3]) (eng world7))) = 1 \<and>
   fst (DeserializeCiphertext ideal_engine [1, 2, 3] world7) =
     Inl (ErrTfhe ''deserialize ciphertext'' 1) \<and>
   status (fst (ideal_engine (fhe_uint8_deserialize [1, 2, 3]) (eng world7))) = 1 \<and>
   fst (Uint8Deserialize ideal_engine [1, 2, 3] world7) =
     Inl (ErrTfhe ''deserialize uint8 ciphertext'' 1) \<and>
   codec_error (ErrTfhe ''deserialize uint8 ciphertext'' 1) \<and>
   codec_error CorruptInputError"
proof -
  have c: "DecodeString ''not-base64-or-empty-bytes'' = Inl CorruptInputError"
    by code_simp
  have b: "status (fst (ideal_engine (boolean_deserialize_ciphertext [1, 2, 3]) (eng world7))) = 1"
    by code_simp
  have u: "status (fst (ideal_engine (fhe_uint8_deserialize [1, 2, 3]) (eng world7))) = 1"
    by code_simp
  have r: "fst (Uint8Deserialize ideal_engine [1, 2, 3] world7) =
             Inl (ErrTfhe ''deserialize uint8 ciphertext'' 1) \<longrightarrow>
           codec_error (ErrTfhe ''deserialize uint8 ciphertext'' 1)"
    using bad_input_fails_with_codec_error [where E = ideal_engine and w = world7
        and c = "''not-base64-or-empty-bytes''"
        and e = "ErrTfhe ''deserialize uint8 ciphertext'' 1" and d = "[1, 2, 3]"
        and bs = bsvc7 and us = usvc7]
    by blast
  show ?thesis
    using c b u r
      bad_input_fails_with_codec_error [where E = ideal_engine and w = world7
        and c = "''not-base64-or-empty-bytes''" and e = CorruptInputError and d = "[1, 2, 3]"
        and bs = bsvc7 and us = usvc7]
    by simp
qed

section \<open>Summaries of the bindings\<close>

lemma lane_run_append:
  "lane_run st (a @ b) = (case lane_run st a of None \<Rightarrow> None | Some st' \<Rightarrow> lane_run st' b)"
  by (induction a arbitrary: st) (auto split: option.splits)

lemma bound_keys_append [simp]: "bound_keys (a @ b) = bound_keys a @ bound_keys b"
  by (simp add: bound_keys_def)

lemma bound_keys_Nil [simp]: "bound_keys [] = []"
  by (simp add: bound_keys_def)

lemma refused_append [simp]: "refused (a @ b) p \<longleftrightarrow> refused a p \<or> refused b p"
  by (simp add: refused_def)

lemma plain_lane: "plain c \<Longrightarrow> lane_step st (Ccall c code) = Some st"
  by (cases c) (simp_all add: plain_def lane_step_def)

lemma plain_bound: "plain c \<Longrightarrow> bound_key (Ccall c code) = []"
  by (cases c) (simp_all add: plain_def bound_key_def)

lemma goodx_refl: "goodx X w w"
  by (simp add: goodx_def)

lemma goodx_mono: "goodx X w w' \<Longrightarrow> X \<subseteq> Y \<Longrightarrow> goodx Y w w'"
  unfolding goodx_def by blast

lemma deref_frame:
  assumes "holder_ok w" "holder w' = holder w" "\<forall>r < gnext w. gheap w' r = gheap w r"
  shows "deref w' (holder w') = deref w (holder w)"
  using assms by (cases "holder w") (auto simp: holder_ok_def)

lemma holder_ok_frame:
  assumes "holder_ok w" "holder w' = holder w" "gnext w \<le> gnext w'"
  shows "holder_ok w'"
  using assms by (cases "holder w") (auto simp: holder_ok_def)

lemma goodx_trans:
  assumes 1: "goodx X w w1" and 2: "goodx Y w1 w2"
  shows "goodx (X \<union> Y) w w2"
proof -
  from 1 obtain d1 where
    h1: "holder w1 = holder w" and n1: "gnext w \<le> gnext w1"
    and f1: "\<forall>r < gnext w. gheap w1 r = gheap w r"
    and t1: "trace w1 = trace w @ d1" and l1: "lane_run Unpinned d1 = Some Unpinned"
    and b1: "holder_ok w \<longrightarrow> set (bound_keys d1) \<subseteq> set_option (deref w (holder w))"
    and r1: "\<forall>h. gnext w \<le> h \<and> h < gnext w1 \<and> h \<notin> X \<longrightarrow>
                 gheap w1 h = 0 \<or> refused d1 (gheap w1 h)"
    unfolding goodx_def by blast
  from 2 obtain d2 where
    h2: "holder w2 = holder w1" and n2: "gnext w1 \<le> gnext w2"
    and f2: "\<forall>r < gnext w1. gheap w2 r = gheap w1 r"
    and t2: "trace w2 = trace w1 @ d2" and l2: "lane_run Unpinned d2 = Some Unpinned"
    and b2: "holder_ok w1 \<longrightarrow> set (bound_keys d2) \<subseteq> set_option (deref w1 (holder w1))"
    and r2: "\<forall>h. gnext w1 \<le> h \<and> h < gnext w2 \<and> h \<notin> Y \<longrightarrow>
                 gheap w2 h = 0 \<or> refused d2 (gheap w2 h)"
    unfolding goodx_def by blast
  have frame: "\<forall>r < gnext w. gheap w2 r = gheap w r"
    using f1 f2 n1 by auto
  have tr: "trace w2 = trace w @ (d1 @ d2)"
    using t1 t2 by simp
  have ln: "lane_run Unpinned (d1 @ d2) = Some Unpinned"
    using l1 l2 by (simp add: lane_run_append)
  have bd: "holder_ok w \<longrightarrow> set (bound_keys (d1 @ d2)) \<subseteq> set_option (deref w (holder w))"
  proof
    assume ok: "holder_ok w"
    then have "holder_ok w1" using h1 n1 by (rule holder_ok_frame)
    moreover have "deref w1 (holder w1) = deref w (holder w)"
      using ok h1 f1 by (rule deref_frame)
    ultimately show "set (bound_keys (d1 @ d2)) \<subseteq> set_option (deref w (holder w))"
      using b1 b2 ok by auto
  qed
  have rel: "\<forall>h. gnext w \<le> h \<and> h < gnext w2 \<and> h \<notin> X \<union> Y \<longrightarrow>
                 gheap w2 h = 0 \<or> refused (d1 @ d2) (gheap w2 h)"
  proof (intro allI impI)
    fix h assume a: "gnext w \<le> h \<and> h < gnext w2 \<and> h \<notin> X \<union> Y"
    show "gheap w2 h = 0 \<or> refused (d1 @ d2) (gheap w2 h)"
    proof (cases "h < gnext w1")
      case True
      then have "gheap w2 h = gheap w1 h" using f2 by simp
      moreover have "gheap w1 h = 0 \<or> refused d1 (gheap w1 h)" using r1 a True by simp
      ultimately show ?thesis by auto
    next
      case False
      then have "gheap w2 h = 0 \<or> refused d2 (gheap w2 h)" using r2 a by simp
      then show ?thesis by auto
    qed
  qed
  show ?thesis
    unfolding goodx_def using h1 h2 n1 n2 frame tr ln bd rel by auto
qed

lemma goodx_trans0: "goodx {} w w1 \<Longrightarrow> goodx X w1 w2 \<Longrightarrow> goodx X w w2"
  using goodx_trans [of "{}" w w1 X w2] by simp

lemma goodx_trans1: "goodx X w w1 \<Longrightarrow> goodx {} w1 w2 \<Longrightarrow> goodx X w w2"
  using goodx_trans [of X w w1 "{}" w2] by simp

lemma plain_events_lane: "list_all plain_event d \<Longrightarrow> lane_run st d = Some st"
proof (induction d)
  case Nil
  show ?case by simp
next
  case (Cons ev d)
  then show ?case
    by (cases ev) (simp_all add: plain_event_def plain_lane)
qed

lemma plain_events_bound: "list_all plain_event d \<Longrightarrow> bound_keys d = []"
proof (induction d)
  case Nil
  show ?case by simp
next
  case (Cons ev d)
  then have "bound_keys d = []" by simp
  moreover from Cons.prems have "bound_key ev = []"
    by (cases ev) (simp_all add: plain_event_def plain_bound)
  ultimately show ?case by (simp add: bound_keys_def)
qed

lemma quiet_refl: "quiet w w"
  by (simp add: quiet_def)

lemma quiet_trans: "quiet w w1 \<Longrightarrow> quiet w1 w2 \<Longrightarrow> quiet w w2"
  unfolding quiet_def by (metis append.assoc list_all_append)

lemma quiet_goodx: "quiet w w' \<Longrightarrow> goodx X w w'"
  unfolding quiet_def goodx_def
  by (auto simp: plain_events_lane plain_events_bound)

lemma quiet_ccall: "plain c \<Longrightarrow> quiet w (snd (ccall E c w))"
  by (simp add: quiet_def ccall_def plain_event_def split: prod.splits)

lemma quiet_checked: "plain c \<Longrightarrow> quiet w (snd (checked E c context w))"
  by (simp add: quiet_def checked_def ccall_def plain_event_def split: prod.splits option.splits)

lemma goodx_wrap: "goodx {gnext w} w (snd (wrap p w))"
  by (simp add: goodx_def wrap_def)

lemma good_ret: "good (\<lambda>w. (r, w))"
  by (simp add: good_def goodx_refl)

lemma good_bindE:
  assumes "good m" "\<And>x. good (f x)"
  shows "good (bindE m f)"
  unfolding good_def
proof
  fix w
  show "goodx {} w (snd (bindE m f w))"
  proof (cases "m w")
    case (Pair r w1)
    then have g1: "goodx {} w w1" using assms(1) by (auto simp: good_def dest: spec [of _ w])
    show ?thesis
    proof (cases r)
      case (Inl e)
      with Pair g1 show ?thesis by (simp add: bindE_def)
    next
      case (Inr x)
      have "goodx {} w1 (snd (f x w1))" using assms(2) by (simp add: good_def)
      with g1 have "goodx {} w (snd (f x w1))" by (rule goodx_trans0)
      with Pair Inr show ?thesis by (simp add: bindE_def)
    qed
  qed
qed

lemma good_deferring:
  assumes "good body" "\<And>w. goodx {} w (cleanup w)"
  shows "good (deferring cleanup body)"
  unfolding good_def
proof
  fix w
  obtain r w1 where b: "body w = (r, w1)" by (cases "body w")
  then have "goodx {} w w1" using assms(1) by (auto simp: good_def dest: spec [of _ w])
  then have "goodx {} w (cleanup w1)" using assms(2) by (rule goodx_trans0)
  with b show "goodx {} w (snd (deferring cleanup body w))" by (simp add: deferring_def)
qed

lemma good_checked: "plain c \<Longrightarrow> good (checked E c context)"
  by (simp add: good_def quiet_goodx quiet_checked)

lemma goodx_close:
  assumes cl: "closer cl" and g: "goodx X w w2" and r: "gnext w \<le> r"
  shows "goodx (X - {r}) w (cl (Some r) w2)"
proof -
  let ?w3 = "cl (Some r) w2"
  from g obtain d where
    h: "holder w2 = holder w" and n: "gnext w \<le> gnext w2"
    and f: "\<forall>r < gnext w. gheap w2 r = gheap w r"
    and t: "trace w2 = trace w @ d" and l: "lane_run Unpinned d = Some Unpinned"
    and b: "holder_ok w \<longrightarrow> set (bound_keys d) \<subseteq> set_option (deref w (holder w))"
    and rl: "\<forall>h. gnext w \<le> h \<and> h < gnext w2 \<and> h \<notin> X \<longrightarrow>
                 gheap w2 h = 0 \<or> refused d (gheap w2 h)"
    unfolding goodx_def by blast
  from cl obtain dc where
    ch: "holder ?w3 = holder w2" and cn: "gnext ?w3 = gnext w2"
    and cf: "\<forall>r'. Some r \<noteq> Some r' \<longrightarrow> gheap ?w3 r' = gheap w2 r'"
    and ct: "trace ?w3 = trace w2 @ dc" and cp: "list_all plain_event dc"
    and cr: "gheap ?w3 r = 0 \<or> refused dc (gheap ?w3 r)"
    unfolding closer_def by blast
  have frame: "\<forall>r' < gnext w. gheap ?w3 r' = gheap w r'"
    using f cf r by auto
  have tr: "trace ?w3 = trace w @ (d @ dc)"
    using t ct by simp
  have ln: "lane_run Unpinned (d @ dc) = Some Unpinned"
    using l cp by (simp add: lane_run_append plain_events_lane)
  have bd: "holder_ok w \<longrightarrow> set (bound_keys (d @ dc)) \<subseteq> set_option (deref w (holder w))"
    using b cp by (simp add: plain_events_bound)
  have rel: "\<forall>h. gnext w \<le> h \<and> h < gnext ?w3 \<and> h \<notin> X - {r} \<longrightarrow>
                 gheap ?w3 h = 0 \<or> refused (d @ dc) (gheap ?w3 h)"
  proof (intro allI impI)
    fix h assume a: "gnext w \<le> h \<and> h < gnext ?w3 \<and> h \<notin> X - {r}"
    show "gheap ?w3 h = 0 \<or> refused (d @ dc) (gheap ?w3 h)"
    proof (cases "h = r")
      case True
      with cr show ?thesis by auto
    next
      case False
      then have "gheap ?w3 h = gheap w2 h" using cf by simp
      moreover have "gheap w2 h = 0 \<or> refused d (gheap w2 h)"
        using rl a False cn by simp
      ultimately show ?thesis by auto
    qed
  qed
  show ?thesis
    unfolding goodx_def using h ch n cn frame tr ln bd rel by auto
qed

lemma scoped:
  assumes m: "acquires m" and cl: "closer cl" and body: "\<And>h. good (body h)"
  shows "good (bindE m (\<lambda>h. deferring (cl h) (body h)))"
  unfolding good_def
proof
  fix w
  show "goodx {} w (snd (bindE m (\<lambda>h. deferring (cl h) (body h)) w))"
  proof (cases "m w")
    case (Pair r w1)
    show ?thesis
    proof (cases r)
      case (Inl e)
      with Pair m have "goodx {} w w1"
        by (auto simp: acquires_def dest: spec [of _ w])
      with Pair Inl show ?thesis by (simp add: bindE_def)
    next
      case (Inr h)
      with Pair m have a: "goodx {gnext w} w w1" and h: "h = Some (gnext w)"
        by (auto simp: acquires_def dest: spec [of _ w])
      obtain r2 w2 where b: "body h w1 = (r2, w2)" by (cases "body h w1")
      then have "goodx {} w1 w2" using body [of h] by (auto simp: good_def dest: spec [of _ w1])
      with a have "goodx {gnext w} w w2" by (rule goodx_trans1)
      with cl have "goodx ({gnext w} - {gnext w}) w (cl (Some (gnext w)) w2)"
        by (rule goodx_close) simp
      then show ?thesis
        using Pair Inr h b by (simp add: bindE_def deferring_def)
    qed
  qed
qed


lemma closer_Uint8Ciphertext: "closer (\<lambda>h w. snd (Uint8Ciphertext_Close E h w))"
  unfolding closer_def
proof (intro allI)
  fix h :: handle and w :: "'a world"
  show "holder (snd (Uint8Ciphertext_Close E h w)) = holder w \<and>
        gnext (snd (Uint8Ciphertext_Close E h w)) = gnext w \<and>
        (\<forall>r. h \<noteq> Some r \<longrightarrow> gheap (snd (Uint8Ciphertext_Close E h w)) r = gheap w r) \<and>
        (\<exists>d. trace (snd (Uint8Ciphertext_Close E h w)) = trace w @ d \<and> list_all plain_event d \<and>
             (\<forall>r. h = Some r \<longrightarrow> gheap (snd (Uint8Ciphertext_Close E h w)) r = 0 \<or>
                    refused d (gheap (snd (Uint8Ciphertext_Close E h w)) r)))"
    by (cases h)
       (auto simp: Uint8Ciphertext_Close_def checked_def ccall_def check_def plain_event_def
          plain_def refused_def refusal_def split: prod.splits option.splits if_splits)
qed

lemma acquires_fail: "acquires (\<lambda>w. (Inl e, w))"
  by (simp add: acquires_def goodx_refl)

lemma acquires_checked_wrap:
  assumes "plain c"
  shows "acquires (bindE (checked E c context) (\<lambda>r. wrap (optr r)))"
  unfolding acquires_def
proof
  fix w
  obtain r w1 where c: "checked E c context w = (r, w1)" by (cases "checked E c context w")
  from assms have q: "quiet w w1" using quiet_checked [of c w E] c by (metis snd_conv)
  show "case bindE (checked E c context) (\<lambda>r. wrap (optr r)) w of
          (Inl e, w') \<Rightarrow> goodx {} w w'
        | (Inr h, w') \<Rightarrow> goodx {gnext w} w w' \<and> h = Some (gnext w) \<and> gnext w' = Suc (gnext w)"
  proof (cases r)
    case (Inl e)
    with c q show ?thesis by (simp add: bindE_def quiet_goodx)
  next
    case (Inr rep)
    from q have n: "gnext w1 = gnext w" by (simp add: quiet_def)
    have "goodx {gnext w1} w1 (snd (wrap (optr rep) w1))" by (rule goodx_wrap)
    with q have "goodx {gnext w1} w (snd (wrap (optr rep) w1))"
      by (blast intro: goodx_trans0 quiet_goodx)
    with c Inr n show ?thesis by (simp add: bindE_def wrap_def)
  qed
qed

lemma acquiresD:
  "acquires f \<Longrightarrow>
   case f w of
     (Inl e, w') \<Rightarrow> goodx {} w w'
   | (Inr h, w') \<Rightarrow> goodx {gnext w} w w' \<and> h = Some (gnext w) \<and> gnext w' = Suc (gnext w)"
  by (simp add: acquires_def)


lemma acquires_EncryptUint8: "acquires (EncryptUint8 E client v)"
  unfolding acquires_def
proof
  fix w
  show "case EncryptUint8 E client v w of
          (Inl e, w') \<Rightarrow> goodx {} w w'
        | (Inr h, w') \<Rightarrow> goodx {gnext w} w w' \<and> h = Some (gnext w) \<and> gnext w' = Suc (gnext w)"
    unfolding EncryptUint8_def
    by (cases "deref w client")
       (simp_all add: goodx_refl acquiresD [OF acquires_checked_wrap] plain_def)
qed

lemma acquires_EncryptUint8Public: "acquires (EncryptUint8Public E pub v)"
  unfolding acquires_def
proof
  fix w
  show "case EncryptUint8Public E pub v w of
          (Inl e, w') \<Rightarrow> goodx {} w w'
        | (Inr h, w') \<Rightarrow> goodx {gnext w} w w' \<and> h = Some (gnext w) \<and> gnext w' = Suc (gnext w)"
    unfolding EncryptUint8Public_def
    by (cases "deref w pub")
       (simp_all add: goodx_refl acquiresD [OF acquires_checked_wrap] plain_def)
qed






lemma acquires_Uint8Deserialize: "acquires (Uint8Deserialize E data)"
  unfolding acquires_def
proof
  fix w
  show "case Uint8Deserialize E data w of
          (Inl e, w') \<Rightarrow> goodx {} w w'
        | (Inr h, w') \<Rightarrow> goodx {gnext w} w w' \<and> h = Some (gnext w) \<and> gnext w' = Suc (gnext w)"
    unfolding Uint8Deserialize_def
    by (cases data)
       (simp_all add: addr0_def goodx_refl acquiresD [OF acquires_checked_wrap] plain_def)
qed


lemma acquires_deserializeUint8: "acquires (deserializeUint8 E c)"
  unfolding acquires_def
proof
  fix w
  show "case deserializeUint8 E c w of
          (Inl e, w') \<Rightarrow> goodx {} w w'
        | (Inr h, w') \<Rightarrow> goodx {gnext w} w w' \<and> h = Some (gnext w) \<and> gnext w' = Suc (gnext w)"
    unfolding deserializeUint8_def
    by (cases "DecodeString c")
       (simp_all add: goodx_refl acquiresD [OF acquires_Uint8Deserialize])
qed

lemma wrap_after:
  assumes g: "goodx {} w (snd (m w))" and n: "gnext (snd (m w)) = gnext w"
  shows "case bindE m (\<lambda>r. wrap (optr r)) w of
           (Inl e, w') \<Rightarrow> goodx {} w w'
         | (Inr h, w') \<Rightarrow> goodx {gnext w} w w' \<and> h = Some (gnext w) \<and> gnext w' = Suc (gnext w)"
proof -
  obtain r w1 where c: "m w = (r, w1)" by (cases "m w")
  with g n have g1: "goodx {} w w1" and n1: "gnext w1 = gnext w" by simp_all
  show ?thesis
  proof (cases r)
    case (Inl e)
    with c g1 show ?thesis by (simp add: bindE_def)
  next
    case (Inr rep)
    have "goodx {gnext w1} w1 (snd (wrap (optr rep) w1))" by (rule goodx_wrap)
    with g1 have "goodx {gnext w1} w (snd (wrap (optr rep) w1))" by (rule goodx_trans0)
    with c Inr n1 show ?thesis by (simp add: bindE_def wrap_def)
  qed
qed

lemma withServerKey_goodx:
  assumes a: "\<And>code. lane_step Bound (Ccall c code) = Some Bound"
    and b: "\<And>code. bound_key (Ccall c code) = []"
  shows "goodx {} w (snd (withServerKey E (defaultUint8ServerKey w) (checked E c ctx) w)) \<and>
         gnext (snd (withServerKey E (defaultUint8ServerKey w) (checked E c ctx) w)) = gnext w"
proof (cases "deref w (holder w)")
  case None
  then show ?thesis
    by (simp add: withServerKey_def defaultUint8ServerKey_def goodx_refl)
next
  case (Some k)
  have set_step: "\<And>code. lane_step Pinned (Ccall (set_server_key k) code) =
                    Some (if code = 0 then Bound else Pinned)"
    by (simp add: lane_step_def)
  have lock: "lane_step Unpinned LockOSThread = Some Pinned"
    and unlock: "lane_step Pinned UnlockOSThread = Some Unpinned"
    and unset: "\<And>code. lane_step Bound (Ccall unset_server_key code) = Some Pinned"
    by (simp_all add: lane_step_def)
  have bk: "\<And>code. bound_key (Ccall (set_server_key k) code) = [k]"
    "\<And>code. bound_key (Ccall unset_server_key code) = []"
    "bound_key LockOSThread = []" "bound_key UnlockOSThread = []"
    by (simp_all add: bound_key_def)
  show ?thesis
    using Some
    by (auto simp: withServerKey_def defaultUint8ServerKey_def deferring_def bindE_def
          checked_def ccall_def check_def emit_def goodx_def a b set_step lock unlock unset
          bk bound_keys_def
        split: prod.splits option.splits)
qed

lemma arith_steps:
  "lane_step Bound (Ccall (fhe_uint8_add l r) code) = Some Bound"
  "lane_step Bound (Ccall (fhe_uint8_bitand l r) code) = Some Bound"
  "lane_step Bound (Ccall (fhe_uint8_bitxor l r) code) = Some Bound"
  "bound_key (Ccall (fhe_uint8_add l r) code) = []"
  "bound_key (Ccall (fhe_uint8_bitand l r) code) = []"
  "bound_key (Ccall (fhe_uint8_bitxor l r) code) = []"
  by (simp_all add: lane_step_def bound_key_def)

lemma acquires_Uint8Add: "acquires (Uint8Add E lhs rhs)"
  unfolding acquires_def
proof
  fix w
  show "case Uint8Add E lhs rhs w of
          (Inl e, w') \<Rightarrow> goodx {} w w'
        | (Inr h, w') \<Rightarrow> goodx {gnext w} w w' \<and> h = Some (gnext w) \<and> gnext w' = Suc (gnext w)"
    unfolding Uint8Add_def
    by (cases "deref w lhs"; cases "deref w rhs")
       (simp_all add: goodx_refl wrap_after withServerKey_goodx arith_steps)
qed

lemma acquires_Uint8BitAnd: "acquires (Uint8BitAnd E lhs rhs)"
  unfolding acquires_def
proof
  fix w
  show "case Uint8BitAnd E lhs rhs w of
          (Inl e, w') \<Rightarrow> goodx {} w w'
        | (Inr h, w') \<Rightarrow> goodx {gnext w} w w' \<and> h = Some (gnext w) \<and> gnext w' = Suc (gnext w)"
    unfolding Uint8BitAnd_def
    by (cases "deref w lhs"; cases "deref w rhs")
       (simp_all add: goodx_refl wrap_after withServerKey_goodx arith_steps)
qed

lemma acquires_Uint8BitXor: "acquires (Uint8BitXor E lhs rhs)"
  unfolding acquires_def
proof
  fix w
  show "case Uint8BitXor E lhs rhs w of
          (Inl e, w') \<Rightarrow> goodx {} w w'
        | (Inr h, w') \<Rightarrow> goodx {gnext w} w w' \<and> h = Some (gnext w) \<and> gnext w' = Suc (gnext w)"
    unfolding Uint8BitXor_def
    by (cases "deref w lhs"; cases "deref w rhs")
       (simp_all add: goodx_refl wrap_after withServerKey_goodx arith_steps)
qed

lemma good_fail: "good (\<lambda>w. (Inl e, w))"
  by (rule good_ret)


lemma good_Uint8Serialize: "good (Uint8Serialize E c)"
  unfolding good_def
proof
  fix w
  have g: "good (bindE (checked E (fhe_uint8_serialize p) ''serialize uint8 ciphertext'')
             (\<lambda>r. deferring (\<lambda>w'. snd (ccall E (destroy_dynamic_buffer (obuf r)) w'))
                (\<lambda>w'. (if length (obuf r) = 0 then Inr []
                         else GoBytes (obuf r) (C_int (length (obuf r))), w'))))" for p
    by (intro good_bindE good_checked good_deferring good_ret quiet_goodx quiet_ccall)
       (simp_all add: plain_def)
  show "goodx {} w (snd (Uint8Serialize E c w))"
    unfolding Uint8Serialize_def
    using g [unfolded good_def]
    by (cases "deref w c") (simp_all add: goodx_refl)
qed


lemma good_DecryptUint8: "good (DecryptUint8 E client ct)"
  unfolding good_def
proof
  fix w
  have g: "good (bindE (checked E (fhe_uint8_decrypt p ck) ''decrypt uint8'')
             (\<lambda>r w'. (Inr (obyte r), w')))" for ck p
    by (intro good_bindE good_checked good_ret) (simp add: plain_def)
  show "goodx {} w (snd (DecryptUint8 E client ct w))"
    unfolding DecryptUint8_def
    by (cases "deref w client"; cases "deref w ct")
       (simp_all add: goodx_refl g [unfolded good_def])
qed


lemma good_serializeUint8ToBase64: "good (serializeUint8ToBase64 E ct)"
  unfolding serializeUint8ToBase64_def
  by (intro good_bindE good_Uint8Serialize good_ret)

section \<open>Summaries of the service operations\<close>





lemma good_Uint8Service_Encrypt: "good (Uint8Service_Encrypt E s v)"
  unfolding Uint8Service_Encrypt_def
  by (intro scoped [where cl = "\<lambda>h w. snd (Uint8Ciphertext_Close E h w)"]
        acquires_EncryptUint8 closer_Uint8Ciphertext good_serializeUint8ToBase64)

lemma good_Uint8Service_EncryptWithPublic: "good (Uint8Service_EncryptWithPublic E s v)"
  unfolding Uint8Service_EncryptWithPublic_def
  by (intro scoped [where cl = "\<lambda>h w. snd (Uint8Ciphertext_Close E h w)"]
        acquires_EncryptUint8Public closer_Uint8Ciphertext good_serializeUint8ToBase64)

lemma good_Uint8Service_Decrypt: "good (Uint8Service_Decrypt E s c)"
  unfolding Uint8Service_Decrypt_def
  by (intro scoped [where cl = "\<lambda>h w. snd (Uint8Ciphertext_Close E h w)"]
        acquires_deserializeUint8 closer_Uint8Ciphertext good_DecryptUint8)

lemma good_binaryUint8:
  assumes "\<And>lhs rhs. acquires (op lhs rhs)"
  shows "good (binaryUint8 E s l r op)"
  unfolding binaryUint8_def
  by (intro scoped [where cl = "\<lambda>h w. snd (Uint8Ciphertext_Close E h w)"]
        acquires_deserializeUint8 closer_Uint8Ciphertext good_serializeUint8ToBase64 assms)

section \<open>The context binder and the release of handles\<close>

lemma goodx_since:
  assumes "goodx X w w'"
  shows "lane_run Unpinned (since w w') = Some Unpinned"
    and "holder_ok w \<Longrightarrow> set (bound_keys (since w w')) \<subseteq> set_option (deref w (holder w))"
    and "X = {} \<Longrightarrow> all_released w w'"
  using assms unfolding goodx_def all_released_def since_def by auto

lemma acquires_goodx: "acquires f \<Longrightarrow> goodx {gnext w} w (snd (f w))"
proof -
  assume a: "acquires f"
  obtain r w' where f: "f w = (r, w')" by (cases "f w")
  show ?thesis
  proof (cases r)
    case (Inl e)
    with acquiresD [OF a, of w] f have "goodx {} w w'" by simp
    then have "goodx {gnext w} w w'" by (rule goodx_mono) simp
    with f show ?thesis by simp
  next
    case (Inr h)
    with acquiresD [OF a, of w] f show ?thesis by simp
  qed
qed

lemma goodD: "good f \<Longrightarrow> goodx {} w (snd (f w))"
  by (simp add: good_def)

lemma good_Uint8Service_Add: "good (Uint8Service_Add E s l r)"
  unfolding Uint8Service_Add_def by (rule good_binaryUint8) (rule acquires_Uint8Add)

lemma good_Uint8Service_BitAnd: "good (Uint8Service_BitAnd E s l r)"
  unfolding Uint8Service_BitAnd_def by (rule good_binaryUint8) (rule acquires_Uint8BitAnd)

lemma good_Uint8Service_BitXor: "good (Uint8Service_BitXor E s l r)"
  unfolding Uint8Service_BitXor_def by (rule good_binaryUint8) (rule acquires_Uint8BitXor)




text \<open>
  C4.  Whatever the engine answers, the events of each integer binary operation, at the
  level of the bindings (\<open>Uint8Add\<close>, \<open>Uint8BitAnd\<close>, \<open>Uint8BitXor\<close>) and of the service
  (\<open>Add\<close>, \<open>BitAnd\<close>, \<open>BitXor\<close>), are accepted by the context binder and leave the lane
  unpinned: once \<open>set_server_key\<close> has answered 0, \<open>unset_server_key\<close> is called before the
  operation returns, also when the primitive fails, and \<open>UnlockOSThread\<close> comes only after
  that call.
\<close>

theorem unbind_before_return:
  "lane_run Unpinned (since w (snd (Uint8Add E lhs rhs w))) = Some Unpinned \<and>
   lane_run Unpinned (since w (snd (Uint8BitAnd E lhs rhs w))) = Some Unpinned \<and>
   lane_run Unpinned (since w (snd (Uint8BitXor E lhs rhs w))) = Some Unpinned \<and>
   lane_run Unpinned (since w (snd (Uint8Service_Add E s l r w))) = Some Unpinned \<and>
   lane_run Unpinned (since w (snd (Uint8Service_BitAnd E s l r w))) = Some Unpinned \<and>
   lane_run Unpinned (since w (snd (Uint8Service_BitXor E s l r w))) = Some Unpinned"
proof -
  have a: "lane_run Unpinned (since w (snd (f w))) = Some Unpinned" if "acquires f" for f
    using that by (rule goodx_since(1) [OF acquires_goodx])
  have g: "lane_run Unpinned (since w (snd (f w))) = Some Unpinned" if "good f"
    for f :: "(string, 'a) go"
    using that by (rule goodx_since(1) [OF goodD])
  show ?thesis
    by (intro conjI a g acquires_Uint8Add acquires_Uint8BitAnd acquires_Uint8BitXor
          good_Uint8Service_Add good_Uint8Service_BitAnd good_Uint8Service_BitXor)
qed

text \<open>
  An instance with a failing primitive: in \<open>world7\<close> the right operand is the boolean
  ciphertext, which the integer addition refuses with status 1.
\<close>

theorem unbind_before_return_witness:
  "since world7 (snd (Uint8Add ideal_engine (Some 6) (Some 2) world7)) =
     [LockOSThread, Ccall (set_server_key 5) 0, Ccall (fhe_uint8_add 7 3) 1,
      Ccall unset_server_key 0, UnlockOSThread] \<and>
   fst (Uint8Add ideal_engine (Some 6) (Some 2) world7) = Inl (ErrTfhe ''uint8 add'' 1) \<and>
   lane_run Unpinned (since world7 (snd (Uint8Add ideal_engine (Some 6) (Some 2) world7))) =
     Some Unpinned"
proof -
  have "since world7 (snd (Uint8Add ideal_engine (Some 6) (Some 2) world7)) =
     [LockOSThread, Ccall (set_server_key 5) 0, Ccall (fhe_uint8_add 7 3) 1,
      Ccall unset_server_key 0, UnlockOSThread] \<and>
   fst (Uint8Add ideal_engine (Some 6) (Some 2) world7) = Inl (ErrTfhe ''uint8 add'' 1)"
    by code_simp
  then show ?thesis
    using unbind_before_return [where E = ideal_engine and w = world7 and lhs = "Some 6"
        and rhs = "Some 2"]
    by blast
qed



section \<open>The key that the integer operations bind\<close>

lemma goodx_serve: "goodx {} w (serve E s q w)"
  by (cases q)
     (simp_all add: goodD good_Uint8Service_Encrypt good_Uint8Service_EncryptWithPublic
        good_Uint8Service_Decrypt good_Uint8Service_Add good_Uint8Service_BitAnd
        good_Uint8Service_BitXor)

lemma goodx_serve_all: "goodx {} w (serve_all E s qs w)"
proof (induction qs arbitrary: w)
  case Nil
  show ?case by (simp add: goodx_refl)
next
  case (Cons q qs)
  have "goodx {} w (serve E s q w)" by (rule goodx_serve)
  moreover have "goodx {} (serve E s q w) (serve_all E s qs (serve E s q w))" by (rule Cons.IH)
  ultimately show ?case by (simp add: goodx_trans0)
qed

lemma NewUint8Service_holder:
  assumes "NewUint8Service E w0 = (Inr s, w1)"
  shows "defaultUint8ServerKey w1 = us_server s \<and> holder_ok w1"
  using assms
  by (auto simp: NewUint8Service_def GenerateUint8Keys_def NewUint8PublicKey_def bindE_def
        checked_def ccall_def check_def wrap_def setServerKeyHolder_def holder_ok_def
        defaultUint8ServerKey_def
      split: prod.splits sum.splits option.splits if_splits)

text \<open>
  C5, as the code has it.  The claim holds for a single integer service and fails for two:
  the operations bind the key of the process-wide holder, which every key generation
  overwrites.  Whatever the engine does: each request binds no key other than the one in
  the holder when the request starts; the construction of a service puts that service's
  server key into the holder, and from then on, through any sequence of requests to it
  (no other integer service being constructed meanwhile), every bind is of that key; the
  three binary operations do not read the service they are called on, and have no
  parameter for a key.
\<close>

theorem binds_holder_key:
  "(holder_ok w \<longrightarrow>
      set (bound_keys (since w (serve E s q w))) \<subseteq>
        set_option (deref w (defaultUint8ServerKey w))) \<and>
   (NewUint8Service E w0 = (Inr s, w1) \<longrightarrow>
      defaultUint8ServerKey w1 = us_server s \<and> holder_ok w1 \<and>
      set (bound_keys (since w1 (serve_all E s qs w1))) \<subseteq>
        set_option (deref w1 (us_server s))) \<and>
   Uint8Service_Add E s' l r = Uint8Service_Add E s l r \<and>
   Uint8Service_BitAnd E s' l r = Uint8Service_BitAnd E s l r \<and>
   Uint8Service_BitXor E s' l r = Uint8Service_BitXor E s l r"
proof (intro conjI impI)
  assume "holder_ok w"
  then show "set (bound_keys (since w (serve E s q w))) \<subseteq>
               set_option (deref w (defaultUint8ServerKey w))"
    using goodx_since(2) [OF goodx_serve, of w E s q] by (simp add: defaultUint8ServerKey_def)
next
  assume n: "NewUint8Service E w0 = (Inr s, w1)"
  then show "defaultUint8ServerKey w1 = us_server s" and "holder_ok w1"
    by (simp_all add: NewUint8Service_holder)
  with goodx_since(2) [OF goodx_serve_all, of w1 E s qs]
  show "set (bound_keys (since w1 (serve_all E s qs w1))) \<subseteq> set_option (deref w1 (us_server s))"
    by (simp add: defaultUint8ServerKey_def)
qed (simp_all add: Uint8Service_Add_def Uint8Service_BitAnd_def Uint8Service_BitXor_def
       binaryUint8_def)

theorem binds_holder_key_witness:
  "NewUint8Service ideal_engine world0 = (Inr svc_a, world_a) \<and>
   defaultUint8ServerKey world_a = us_server svc_a \<and>
   deref world_a (us_server svc_a) = Some 2 \<and>
   bound_keys (since world_a
     (serve_all ideal_engine svc_a [Encrypt 7, Add ''VQc='' ''VQc='', BitXor ''VQc='' ''VQ4='']
        world_a)) = [2, 2] \<and>
   set (bound_keys (since world_a
     (serve_all ideal_engine svc_a [Encrypt 7, Add ''VQc='' ''VQc='', BitXor ''VQc='' ''VQ4='']
        world_a))) \<subseteq> set_option (deref world_a (us_server svc_a)) \<and>
   holder_ok world_b \<and>
   set (bound_keys (since world_b (serve ideal_engine svc_a (Add ''VQc='' ''VQc='') world_b)))
     \<subseteq> set_option (deref world_b (defaultUint8ServerKey world_b))"
proof -
  have "fst (NewUint8Service ideal_engine world0) = Inr svc_a"
    by code_simp
  then have n: "NewUint8Service ideal_engine world0 = (Inr svc_a, world_a)"
    by (simp add: world_a_def prod_eq_iff)
  have e: "deref world_a (us_server svc_a) = Some 2 \<and>
    bound_keys (since world_a
     (serve_all ideal_engine svc_a [Encrypt 7, Add ''VQc='' ''VQc='', BitXor ''VQc='' ''VQ4='']
        world_a)) = [2, 2] \<and> holder_ok world_b"
    by code_simp
  show ?thesis
    using n e
      binds_holder_key [where E = ideal_engine and w = world_b and s = svc_a
        and q = "Add ''VQc='' ''VQc=''" and ?w0.0 = world0 and ?w1.0 = world_a
        and qs = "[Encrypt 7, Add ''VQc='' ''VQc='', BitXor ''VQc='' ''VQ4='']"]
    by blast
qed

text \<open>
  The claim as it is written fails when a second integer service has been constructed:
  an addition requested from the first service binds pointer 5, the server key of the
  second one, and not pointer 2, the key established at its own construction.
\<close>

theorem binds_own_key_counterexample:
  "fst (NewUint8Service ideal_engine world0) = Inr svc_a \<and>
   fst (NewUint8Service ideal_engine world_a) = Inr svc_b \<and>
   deref world_b (us_server svc_a) = Some 2 \<and>
   deref world_b (us_server svc_b) = Some 5 \<and>
   fst (Uint8Service_Add ideal_engine svc_a ''VQc='' ''VQc='' world_b) = Inr ''VQ4='' \<and>
   bound_keys (since world_b (snd (Uint8Service_Add ideal_engine svc_a ''VQc='' ''VQc='' world_b)))
     = [5] \<and>
   \<not> set (bound_keys
           (since world_b (snd (Uint8Service_Add ideal_engine svc_a ''VQc='' ''VQc='' world_b))))
       \<subseteq> set_option (deref world_b (us_server svc_a))"
proof -
  have e: "fst (NewUint8Service ideal_engine world0) = Inr svc_a \<and>
   fst (NewUint8Service ideal_engine world_a) = Inr svc_b \<and>
   deref world_b (us_server svc_a) = Some 2 \<and>
   deref world_b (us_server svc_b) = Some 5 \<and>
   fst (Uint8Service_Add ideal_engine svc_a ''VQc='' ''VQc='' world_b) = Inr ''VQ4='' \<and>
   bound_keys (since world_b (snd (Uint8Service_Add ideal_engine svc_a ''VQc='' ''VQc='' world_b)))
     = [5]"
    by code_simp
  then show ?thesis by simp
qed

section \<open>Operations after the service is closed\<close>











section \<open>Base64 decodes what it encodes\<close>

lemma index_of_nth: "distinct xs \<Longrightarrow> i < length xs \<Longrightarrow> index_of (xs ! i) xs = Some i"
proof (induction xs arbitrary: i)
  case Nil
  then show ?case by simp
next
  case (Cons x xs)
  show ?case
  proof (cases i)
    case 0
    then show ?thesis by simp
  next
    case (Suc j)
    with Cons.prems have "xs ! j \<noteq> x" by auto
    with Suc Cons show ?thesis by simp
  qed
qed

lemma dec6_enc6: "dec6 (enc6 i) = Some (i mod 64)"
proof -
  have "distinct encodeStd" and "length encodeStd = 64"
    by (simp_all add: encodeStd_def)
  then show ?thesis
    by (simp add: dec6_def enc6_def index_of_nth)
qed

lemma enc6_mem: "enc6 i \<in> set encodeStd"
proof -
  have "length encodeStd = 64" by (simp add: encodeStd_def)
  then show ?thesis unfolding enc6_def by (intro nth_mem) simp
qed

lemma enc6_not_pad: "enc6 i \<noteq> CHR ''=''"
proof
  assume "enc6 i = CHR ''=''"
  with enc6_mem [of i] have "CHR ''='' \<in> set encodeStd" by simp
  then show False by (simp add: encodeStd_def)
qed

lemma enc6_not_newline: "enc6 i \<noteq> CHR 0x0A \<and> enc6 i \<noteq> CHR 0x0D"
proof -
  have "enc6 i = CHR 0x0A \<Longrightarrow> False"
  proof -
    assume "enc6 i = CHR 0x0A"
    with enc6_mem [of i] have "CHR 0x0A \<in> set encodeStd" by simp
    then show False by (simp add: encodeStd_def)
  qed
  moreover have "enc6 i = CHR 0x0D \<Longrightarrow> False"
  proof -
    assume "enc6 i = CHR 0x0D"
    with enc6_mem [of i] have "CHR 0x0D \<in> set encodeStd" by simp
    then show False by (simp add: encodeStd_def)
  qed
  ultimately show ?thesis by blast
qed

lemma b64_arith:
  fixes A B C :: nat
  assumes "A < 256" "B < 256" "C < 256"
  shows "(A div 4) mod 64 * 4 + ((A mod 4 * 16 + B div 16) mod 64) div 16 = A"
    and "(A div 4) mod 64 * 4 + ((A mod 4 * 16) mod 64) div 16 = A"
    and "((A mod 4 * 16 + B div 16) mod 64) mod 16 * 16 + ((B mod 16 * 4 + C div 64) mod 64) div 4 = B"
    and "((A mod 4 * 16 + B div 16) mod 64) mod 16 * 16 + ((B mod 16 * 4) mod 64) div 4 = B"
    and "((B mod 16 * 4 + C div 64) mod 64) mod 4 * 64 + (C mod 64) mod 64 = C"
proof -
  have b: "A div 4 < 64" "B div 16 < 16" "C div 64 < 4" "A mod 4 * 16 + B div 16 < 64"
    "B mod 16 * 4 + C div 64 < 64" "A mod 4 * 16 < 64" "B mod 16 * 4 < 64"
    using assms by auto
  show "(A div 4) mod 64 * 4 + ((A mod 4 * 16 + B div 16) mod 64) div 16 = A"
    using b by (simp add: div_add1_eq)
  show "(A div 4) mod 64 * 4 + ((A mod 4 * 16) mod 64) div 16 = A"
    using b by simp
  have q: "(A mod 4 * 16 + B div 16) mod 16 = B div 16"
    using b by (simp add: mod_add_eq [symmetric] mod_mult_left_eq [symmetric])
  have r: "(B mod 16 * 4 + C div 64) div 4 = B mod 16"
    using b by (simp add: div_add1_eq)
  show "((A mod 4 * 16 + B div 16) mod 64) mod 16 * 16 + ((B mod 16 * 4 + C div 64) mod 64) div 4 = B"
    using b q r by simp
  show "((A mod 4 * 16 + B div 16) mod 64) mod 16 * 16 + ((B mod 16 * 4) mod 64) div 4 = B"
    using b q by simp
  have s: "(B mod 16 * 4 + C div 64) mod 4 = C div 64"
    using b by (simp add: mod_add_eq [symmetric])
  show "((B mod 16 * 4 + C div 64) mod 64) mod 4 * 64 + (C mod 64) mod 64 = C"
    using b s by simp
qed

lemma EncodeToString_Nil: "EncodeToString bs = [] \<longleftrightarrow> bs = []"
  by (induction bs rule: EncodeToString.induct) simp_all

lemma unat_byte: "unat (a :: byte) < 256"
proof -
  have "unat a < 2 ^ LENGTH(8)" by (rule unsigned_less)
  then show ?thesis by simp
qed

lemma of_nat_unat_byte: "n = unat (a :: byte) \<Longrightarrow> (of_nat n :: byte) = a"
  by simp


lemma bytes_of_sextets:
  fixes a b c :: byte
  shows "byte0 ((unat a div 4) mod 64) ((unat a mod 4 * 16 + unat b div 16) mod 64) = a"
    and "byte0 ((unat a div 4) mod 64) ((unat a mod 4 * 16) mod 64) = a"
    and "byte1 ((unat a mod 4 * 16 + unat b div 16) mod 64)
               ((unat b mod 16 * 4 + unat c div 64) mod 64) = b"
    and "byte1 ((unat a mod 4 * 16 + unat b div 16) mod 64) ((unat b mod 16 * 4) mod 64) = b"
    and "byte2 ((unat b mod 16 * 4 + unat c div 64) mod 64) ((unat c mod 64) mod 64) = c"
  unfolding byte0_def byte1_def byte2_def
  by (rule of_nat_unat_byte;
      rule b64_arith [OF unat_byte [of a] unat_byte [of b] unat_byte [of c]])+

lemma decode_encode: "decode_quanta (EncodeToString bs) = Some bs"
proof (induction bs rule: EncodeToString.induct)
  case 1
  show ?case by simp
next
  case (2 a)
  define p q1 where "p = unat a div 4" and "q1 = unat a mod 4 * 16"
  have e: "EncodeToString [a] = [enc6 p, enc6 q1, CHR ''='', CHR ''='']"
    by (simp add: p_def q1_def)
  have "byte0 (p mod 64) (q1 mod 64) = a"
    unfolding p_def q1_def by (rule bytes_of_sextets)
  then show ?case
    unfolding e by (simp add: dec6_enc6)
next
  case (3 a b)
  define p q r2 where "p = unat a div 4" and "q = unat a mod 4 * 16 + unat b div 16"
    and "r2 = unat b mod 16 * 4"
  have e: "EncodeToString [a, b] = [enc6 p, enc6 q, enc6 r2, CHR ''='']"
    by (simp add: p_def q_def r2_def)
  have "byte0 (p mod 64) (q mod 64) = a" and "byte1 (q mod 64) (r2 mod 64) = b"
    unfolding p_def q_def r2_def by (rule bytes_of_sextets)+
  then show ?case
    unfolding e by (simp add: dec6_enc6 enc6_not_pad)
next
  case (4 a b c rest)
  define p q r s where "p = unat a div 4" and "q = unat a mod 4 * 16 + unat b div 16"
    and "r = unat b mod 16 * 4 + unat c div 64" and "s = unat c mod 64"
  have e: "EncodeToString (a # b # c # rest) =
             enc6 p # enc6 q # enc6 r # enc6 s # EncodeToString rest"
    by (simp add: p_def q_def r_def s_def)
  have bytes: "byte0 (p mod 64) (q mod 64) = a" "byte1 (q mod 64) (r mod 64) = b"
    "byte2 (r mod 64) (s mod 64) = c"
    unfolding p_def q_def r_def s_def by (rule bytes_of_sextets)+
  show ?case
  proof (cases "EncodeToString rest")
    case Nil
    then have "rest = []" by (simp add: EncodeToString_Nil)
    with Nil bytes show ?thesis
      unfolding e by (simp add: dec6_enc6 enc6_not_pad)
  next
    case (Cons v va)
    with 4 bytes show ?thesis
      unfolding e by (simp add: dec6_enc6)
  qed
qed

lemma filter_EncodeToString:
  "filter (\<lambda>c. c \<noteq> CHR 0x0A \<and> c \<noteq> CHR 0x0D) (EncodeToString bs) = EncodeToString bs"
  by (induction bs rule: EncodeToString.induct) (simp_all add: enc6_not_newline)

lemma DecodeString_EncodeToString: "DecodeString (EncodeToString bs) = Inr bs"
  by (simp add: DecodeString_def filter_EncodeToString decode_encode)


section \<open>The services on the ideal engine\<close>

lemma top_ge: "map_of os p = Some ob \<Longrightarrow> p \<le> top os"
  by (induction os) (auto split: if_splits)

lemma map_of_fresh: "top os < p \<Longrightarrow> map_of os p = None"
  using top_ge [of os p] by (cases "map_of os p") auto

lemma filter_fresh: "top os < p \<Longrightarrow> filter (\<lambda>(q, _). q \<noteq> p) os = os"
  by (induction os) auto

lemma liveD:
  assumes "live w h ob"
  obtains r where "h = Some r" "r < gnext w" "gheap w r \<noteq> 0"
    "map_of (objs (eng w)) (gheap w r) = Some ob" "gheap w r \<le> top (objs (eng w))"
  using assms by (cases h) (auto simp: live_def lookup_def dest: top_ge)

lemmas go_defs = bindE_def deferring_def checked_def ccall_def check_def wrap_def emit_def
lemmas ideal_defs = fresh_def alloc_def free_def destroy_def lookup_def gate_def arith_def
  ok_def failed_def
lemmas svc_defs = deserializeUint8_def Uint8Deserialize_def serializeUint8ToBase64_def
  Uint8Serialize_def Uint8Ciphertext_Close_def deserialize_def DeserializeCiphertext_def
  serializeToBase64_def Ciphertext_Serialize_def Ciphertext_Close_def addr0_def GoBytes_def
  C_int_def DecodeString_EncodeToString EncodeToString_Nil filter_fresh map_of_fresh
  u8_text_def bool_text_def live_def

lemma ready_u8E:
  assumes "ready_u8 w s"
  obtains rc rk rp where
    "us_client s = Some rc" "rc < gnext w" "gheap w rc \<noteq> 0"
    "map_of (objs (eng w)) (gheap w rc) = Some OClientKey" "gheap w rc \<le> top (objs (eng w))"
    "holder w = Some rk" "rk < gnext w" "gheap w rk \<noteq> 0"
    "map_of (objs (eng w)) (gheap w rk) = Some OServerKey" "gheap w rk \<le> top (objs (eng w))"
    "us_public s = Some rp" "rp < gnext w" "gheap w rp \<noteq> 0"
    "map_of (objs (eng w)) (gheap w rp) = Some OPublicKey" "gheap w rp \<le> top (objs (eng w))"
proof -
  from assms have c: "live w (us_client s) OClientKey"
    and k: "live w (holder w) OServerKey" and p: "live w (us_public s) OPublicKey"
    by (simp_all add: ready_u8_def defaultUint8ServerKey_def)
  from c k p that show thesis
    by (elim liveD) blast
qed

lemma ready_boolE:
  assumes "ready_bool w s"
  obtains rc rk where
    "bs_client s = Some rc" "rc < gnext w" "gheap w rc \<noteq> 0"
    "map_of (objs (eng w)) (gheap w rc) = Some OBooleanClientKey"
    "gheap w rc \<le> top (objs (eng w))"
    "bs_server s = Some rk" "rk < gnext w" "gheap w rk \<noteq> 0"
    "map_of (objs (eng w)) (gheap w rk) = Some OBooleanServerKey"
    "gheap w rk \<le> top (objs (eng w))"
proof -
  from assms have c: "live w (bs_client s) OBooleanClientKey"
    and k: "live w (bs_server s) OBooleanServerKey"
    by (simp_all add: ready_bool_def)
  from c k that show thesis
    by (elim liveD) blast
qed


lemma EncryptWithPublic_ideal:
  assumes "ready_u8 w s"
  shows "fst (Uint8Service_EncryptWithPublic ideal_engine s v w) = Inr (u8_text v) \<and>
         ready_u8 (snd (Uint8Service_EncryptWithPublic ideal_engine s v w)) s"
  using assms
  by (elim ready_u8E)
     (simp add: Uint8Service_EncryptWithPublic_def EncryptUint8Public_def ready_u8_def
        defaultUint8ServerKey_def svc_defs go_defs ideal_defs del: EncodeToString.simps)






lemma EncryptBoolToBase64_ideal:
  assumes "ready_bool w s"
  shows "fst (EncryptBoolToBase64 ideal_engine s v w) = Inr (bool_text v) \<and>
         ready_bool (snd (EncryptBoolToBase64 ideal_engine s v w)) s"
  using assms
  by (elim ready_boolE)
     (simp add: EncryptBoolToBase64_def EncryptBool_def ready_bool_def
        svc_defs go_defs ideal_defs del: EncodeToString.simps)

lemma DecryptBoolFromBase64_ideal:
  assumes "ready_bool w s"
  shows "fst (DecryptBoolFromBase64 ideal_engine s (bool_text v) w) = Inr v \<and>
         ready_bool (snd (DecryptBoolFromBase64 ideal_engine s (bool_text v) w)) s"
  using assms
  by (elim ready_boolE; cases v)
     (simp_all add: DecryptBoolFromBase64_def DecryptBool_def ready_bool_def
        svc_defs go_defs ideal_defs del: EncodeToString.simps)

lemma AndBase64_ideal:
  assumes "ready_bool w s"
  shows "fst (AndBase64 ideal_engine s (bool_text a) (bool_text b) w) = Inr (bool_text (a \<and> b)) \<and>
         ready_bool (snd (AndBase64 ideal_engine s (bool_text a) (bool_text b) w)) s"
  using assms
  by (elim ready_boolE; cases a; cases b)
     (simp_all add: AndBase64_def binaryOp_def ServerKey_And_def ready_bool_def
        svc_defs go_defs ideal_defs del: EncodeToString.simps)

lemma OrBase64_ideal:
  assumes "ready_bool w s"
  shows "fst (OrBase64 ideal_engine s (bool_text a) (bool_text b) w) = Inr (bool_text (a \<or> b)) \<and>
         ready_bool (snd (OrBase64 ideal_engine s (bool_text a) (bool_text b) w)) s"
  using assms
  by (elim ready_boolE; cases a; cases b)
     (simp_all add: OrBase64_def binaryOp_def ServerKey_Or_def ready_bool_def
        svc_defs go_defs ideal_defs del: EncodeToString.simps)

lemma XorBase64_ideal:
  assumes "ready_bool w s"
  shows "fst (XorBase64 ideal_engine s (bool_text a) (bool_text b) w) = Inr (bool_text (a \<noteq> b)) \<and>
         ready_bool (snd (XorBase64 ideal_engine s (bool_text a) (bool_text b) w)) s"
  using assms
  by (elim ready_boolE; cases a; cases b)
     (simp_all add: XorBase64_def binaryOp_def ServerKey_Xor_def ready_bool_def
        svc_defs go_defs ideal_defs del: EncodeToString.simps)

lemma NotBase64_ideal:
  assumes "ready_bool w s"
  shows "fst (NotBase64 ideal_engine s (bool_text a) w) = Inr (bool_text (\<not> a)) \<and>
         ready_bool (snd (NotBase64 ideal_engine s (bool_text a) w)) s"
  using assms
  by (elim ready_boolE; cases a)
     (simp_all add: NotBase64_def ServerKey_Not_def ready_bool_def
        svc_defs go_defs ideal_defs del: EncodeToString.simps)

lemma NewBooleanService_ideal:
  "case NewBooleanService ideal_engine w0 of
     (Inl e, w1) \<Rightarrow> False
   | (Inr s, w1) \<Rightarrow> ready_bool w1 s"
  by (simp add: NewBooleanService_def GenerateBooleanKeys_def ready_bool_def
      svc_defs go_defs ideal_defs)


lemma bindE_fst: "fst (m w) = Inr x \<Longrightarrow> bindE m f w = f x (snd (m w))"
  by (cases "m w") (simp add: bindE_def)

lemma pipeline2:
  assumes enc: "\<And>w v. R w \<Longrightarrow> fst (Enc v w) = Inr (T v) \<and> R (snd (Enc v w))"
    and op: "\<And>w. R w \<Longrightarrow> fst (Op (T a) (T b) w) = Inr (T c) \<and> R (snd (Op (T a) (T b) w))"
    and dec: "\<And>w v. R w \<Longrightarrow> fst (Dec (T v) w) = Inr v \<and> R (snd (Dec (T v) w))"
    and r: "R w"
  shows "fst (bindE (Enc a) (\<lambda>ca. bindE (Enc b) (\<lambda>cb. bindE (Op ca cb) Dec)) w) = Inr c"
proof -
  let ?w1 = "snd (Enc a w)"
  let ?w2 = "snd (Enc b ?w1)"
  let ?w3 = "snd (Op (T a) (T b) ?w2)"
  from enc [OF r, of a] have e1: "fst (Enc a w) = Inr (T a)" and r1: "R ?w1" by simp_all
  from enc [OF r1, of b] have e2: "fst (Enc b ?w1) = Inr (T b)" and r2: "R ?w2" by simp_all
  from op [OF r2] have e3: "fst (Op (T a) (T b) ?w2) = Inr (T c)" and r3: "R ?w3" by simp_all
  from dec [OF r3, of c] have e4: "fst (Dec (T c) ?w3) = Inr c" by simp
  show ?thesis
    by (simp add: bindE_fst [of "Enc a" w "T a", OF e1] bindE_fst [of "Enc b" ?w1 "T b", OF e2]
          bindE_fst [of "Op (T a) (T b)" ?w2 "T c", OF e3] e4)
qed

lemma pipeline1:
  assumes enc: "\<And>w v. R w \<Longrightarrow> fst (Enc v w) = Inr (T v) \<and> R (snd (Enc v w))"
    and op: "\<And>w. R w \<Longrightarrow> fst (Op (T a) w) = Inr (T c) \<and> R (snd (Op (T a) w))"
    and dec: "\<And>w v. R w \<Longrightarrow> fst (Dec (T v) w) = Inr v \<and> R (snd (Dec (T v) w))"
    and r: "R w"
  shows "fst (bindE (Enc a) (\<lambda>ca. bindE (Op ca) Dec) w) = Inr c"
proof -
  let ?w1 = "snd (Enc a w)"
  let ?w2 = "snd (Op (T a) ?w1)"
  from enc [OF r, of a] have e1: "fst (Enc a w) = Inr (T a)" and r1: "R ?w1" by simp_all
  from op [OF r1] have e2: "fst (Op (T a) ?w1) = Inr (T c)" and r2: "R ?w2" by simp_all
  from dec [OF r2, of c] have e3: "fst (Dec (T c) ?w2) = Inr c" by simp
  show ?thesis
    by (simp add: bindE_fst [of "Enc a" w "T a", OF e1]
          bindE_fst [of "Op (T a)" ?w1 "T c", OF e2] e3)
qed




text \<open>
  C3.  On the ideal engine, for a boolean service whose keys are live and all booleans
  \<open>a\<close>, \<open>b\<close>: encrypting both, applying the service's \<open>AndBase64\<close> to the two
  texts and decrypting the text it returns yields \<open>a \<and> b\<close>; with \<open>OrBase64\<close> it yields
  \<open>a \<or> b\<close>, with \<open>XorBase64\<close> it yields \<open>a \<noteq> b\<close>, and \<open>NotBase64\<close> of the encryption
  of \<open>a\<close> decrypts to \<open>\<not> a\<close>.  Every step succeeds, and \<open>NewBooleanService\<close> returns
  such a service from any world.
\<close>

theorem boolean_gates_correct:
  "(ready_bool w s \<longrightarrow>
      fst (bindE (EncryptBoolToBase64 ideal_engine s a) (\<lambda>ca.
           bindE (EncryptBoolToBase64 ideal_engine s b) (\<lambda>cb.
           bindE (AndBase64 ideal_engine s ca cb)
             (DecryptBoolFromBase64 ideal_engine s))) w) = Inr (a \<and> b) \<and>
      fst (bindE (EncryptBoolToBase64 ideal_engine s a) (\<lambda>ca.
           bindE (EncryptBoolToBase64 ideal_engine s b) (\<lambda>cb.
           bindE (OrBase64 ideal_engine s ca cb)
             (DecryptBoolFromBase64 ideal_engine s))) w) = Inr (a \<or> b) \<and>
      fst (bindE (EncryptBoolToBase64 ideal_engine s a) (\<lambda>ca.
           bindE (EncryptBoolToBase64 ideal_engine s b) (\<lambda>cb.
           bindE (XorBase64 ideal_engine s ca cb)
             (DecryptBoolFromBase64 ideal_engine s))) w) = Inr (a \<noteq> b) \<and>
      fst (bindE (EncryptBoolToBase64 ideal_engine s a) (\<lambda>ca.
           bindE (NotBase64 ideal_engine s ca)
             (DecryptBoolFromBase64 ideal_engine s)) w) = Inr (\<not> a)) \<and>
   (case NewBooleanService ideal_engine w0 of
      (Inl e, w1) \<Rightarrow> False
    | (Inr s1, w1) \<Rightarrow> ready_bool w1 s1)"
proof (intro conjI impI)
  assume r: "ready_bool w s"
  show "fst (bindE (EncryptBoolToBase64 ideal_engine s a) (\<lambda>ca.
           bindE (EncryptBoolToBase64 ideal_engine s b) (\<lambda>cb.
           bindE (AndBase64 ideal_engine s ca cb)
             (DecryptBoolFromBase64 ideal_engine s))) w) = Inr (a \<and> b)"
    by (rule pipeline2 [where R = "\<lambda>w. ready_bool w s" and T = bool_text, OF _ _ _ r])
       (simp_all add: EncryptBoolToBase64_ideal AndBase64_ideal DecryptBoolFromBase64_ideal)
  show "fst (bindE (EncryptBoolToBase64 ideal_engine s a) (\<lambda>ca.
           bindE (EncryptBoolToBase64 ideal_engine s b) (\<lambda>cb.
           bindE (OrBase64 ideal_engine s ca cb)
             (DecryptBoolFromBase64 ideal_engine s))) w) = Inr (a \<or> b)"
    by (rule pipeline2 [where R = "\<lambda>w. ready_bool w s" and T = bool_text, OF _ _ _ r])
       (simp_all add: EncryptBoolToBase64_ideal OrBase64_ideal DecryptBoolFromBase64_ideal)
  show "fst (bindE (EncryptBoolToBase64 ideal_engine s a) (\<lambda>ca.
           bindE (EncryptBoolToBase64 ideal_engine s b) (\<lambda>cb.
           bindE (XorBase64 ideal_engine s ca cb)
             (DecryptBoolFromBase64 ideal_engine s))) w) = Inr (a \<noteq> b)"
    by (rule pipeline2 [where R = "\<lambda>w. ready_bool w s" and T = bool_text, OF _ _ _ r])
       (simp_all add: EncryptBoolToBase64_ideal XorBase64_ideal DecryptBoolFromBase64_ideal)
  show "fst (bindE (EncryptBoolToBase64 ideal_engine s a) (\<lambda>ca.
           bindE (NotBase64 ideal_engine s ca)
             (DecryptBoolFromBase64 ideal_engine s)) w) = Inr (\<not> a)"
    by (rule pipeline1 [where R = "\<lambda>w. ready_bool w s" and T = bool_text, OF _ _ _ r])
       (simp_all add: EncryptBoolToBase64_ideal NotBase64_ideal DecryptBoolFromBase64_ideal)
next
  show "case NewBooleanService ideal_engine w0 of
      (Inl e, w1) \<Rightarrow> False
    | (Inr s1, w1) \<Rightarrow> ready_bool w1 s1"
    by (rule NewBooleanService_ideal)
qed

theorem boolean_gates_correct_witness:
  "ready_bool world7 bsvc7 \<and>
   fst (bindE (EncryptBoolToBase64 ideal_engine bsvc7 True) (\<lambda>ca.
        bindE (EncryptBoolToBase64 ideal_engine bsvc7 False) (\<lambda>cb.
        bindE (AndBase64 ideal_engine bsvc7 ca cb)
          (DecryptBoolFromBase64 ideal_engine bsvc7))) world7) = Inr False \<and>
   fst (bindE (EncryptBoolToBase64 ideal_engine bsvc7 True) (\<lambda>ca.
        bindE (EncryptBoolToBase64 ideal_engine bsvc7 False) (\<lambda>cb.
        bindE (OrBase64 ideal_engine bsvc7 ca cb)
          (DecryptBoolFromBase64 ideal_engine bsvc7))) world7) = Inr True \<and>
   fst (bindE (EncryptBoolToBase64 ideal_engine bsvc7 True) (\<lambda>ca.
        bindE (EncryptBoolToBase64 ideal_engine bsvc7 False) (\<lambda>cb.
        bindE (XorBase64 ideal_engine bsvc7 ca cb)
          (DecryptBoolFromBase64 ideal_engine bsvc7))) world7) = Inr True \<and>
   fst (bindE (EncryptBoolToBase64 ideal_engine bsvc7 True) (\<lambda>ca.
        bindE (NotBase64 ideal_engine bsvc7 ca)
          (DecryptBoolFromBase64 ideal_engine bsvc7)) world7) = Inr False"
proof -
  have r: "ready_bool world7 bsvc7"
    by code_simp
  show ?thesis
    using r boolean_gates_correct [where w = world7 and s = bsvc7 and a = True and b = False
        and ?w0.0 = world0]
    by simp
qed

lemma roundtrip_bool:
  assumes "live w client OBooleanClientKey" and "live w c (OBooleanCiphertext v)"
  shows "fst (DecryptBool ideal_engine client c w) = Inr v \<and>
         fst (bindE (Ciphertext_Serialize ideal_engine c) (\<lambda>bytes.
              bindE (DeserializeCiphertext ideal_engine bytes) (\<lambda>c'.
                DecryptBool ideal_engine client c')) w) = Inr v \<and>
         fst (bindE (serializeToBase64 ideal_engine c) (\<lambda>text.
              bindE (deserialize ideal_engine text) (\<lambda>c'.
                DecryptBool ideal_engine client c')) w) = Inr v"
  using assms
  by (elim liveD; cases v)
     (simp_all add: DecryptBool_def svc_defs go_defs ideal_defs del: EncodeToString.simps)

lemma roundtrip_u8:
  assumes "live w client OClientKey" and "live w c (OFheUint8 v)"
  shows "fst (DecryptUint8 ideal_engine client c w) = Inr v \<and>
         fst (bindE (Uint8Serialize ideal_engine c) (\<lambda>bytes.
              bindE (Uint8Deserialize ideal_engine bytes) (\<lambda>c'.
                DecryptUint8 ideal_engine client c')) w) = Inr v \<and>
         fst (bindE (serializeUint8ToBase64 ideal_engine c) (\<lambda>text.
              bindE (deserializeUint8 ideal_engine text) (\<lambda>c'.
                DecryptUint8 ideal_engine client c')) w) = Inr v"
  using assms
  by (elim liveD)
     (simp add: DecryptUint8_def svc_defs go_defs ideal_defs del: EncodeToString.simps)

text \<open>
  C1.  On the ideal engine, for every live ciphertext handle \<open>c\<close> of plaintext \<open>v\<close> and
  live client key, in both families: decrypting \<open>c\<close> yields \<open>v\<close>; serializing \<open>c\<close>,
  deserializing the bytes and decrypting the new handle yields \<open>v\<close> too; and so does the
  same round trip through the base64 text of the service layer.  Every step succeeds.
\<close>

theorem serialize_roundtrip:
  "(live w client OBooleanClientKey \<and> live w c (OBooleanCiphertext v) \<longrightarrow>
      fst (DecryptBool ideal_engine client c w) = Inr v \<and>
      fst (bindE (Ciphertext_Serialize ideal_engine c) (\<lambda>bytes.
           bindE (DeserializeCiphertext ideal_engine bytes) (\<lambda>c'.
             DecryptBool ideal_engine client c')) w) = Inr v \<and>
      fst (bindE (serializeToBase64 ideal_engine c) (\<lambda>text.
           bindE (deserialize ideal_engine text) (\<lambda>c'.
             DecryptBool ideal_engine client c')) w) = Inr v) \<and>
   (live w uclient OClientKey \<and> live w uc (OFheUint8 u) \<longrightarrow>
      fst (DecryptUint8 ideal_engine uclient uc w) = Inr u \<and>
      fst (bindE (Uint8Serialize ideal_engine uc) (\<lambda>bytes.
           bindE (Uint8Deserialize ideal_engine bytes) (\<lambda>c'.
             DecryptUint8 ideal_engine uclient c')) w) = Inr u \<and>
      fst (bindE (serializeUint8ToBase64 ideal_engine uc) (\<lambda>text.
           bindE (deserializeUint8 ideal_engine text) (\<lambda>c'.
             DecryptUint8 ideal_engine uclient c')) w) = Inr u)"
  using roundtrip_bool [of w client c v] roundtrip_u8 [of w uclient uc u] by blast

theorem serialize_roundtrip_witness:
  "live world7 (Some 0) OBooleanClientKey \<and> live world7 (Some 2) (OBooleanCiphertext True) \<and>
   fst (DecryptBool ideal_engine (Some 0) (Some 2) world7) = Inr True \<and>
   fst (bindE (Ciphertext_Serialize ideal_engine (Some 2)) (\<lambda>bytes.
        bindE (DeserializeCiphertext ideal_engine bytes) (\<lambda>c'.
          DecryptBool ideal_engine (Some 0) c')) world7) = Inr True \<and>
   fst (bindE (serializeToBase64 ideal_engine (Some 2)) (\<lambda>text.
        bindE (deserialize ideal_engine text) (\<lambda>c'.
          DecryptBool ideal_engine (Some 0) c')) world7) = Inr True \<and>
   live world7 (Some 3) OClientKey \<and> live world7 (Some 6) (OFheUint8 7) \<and>
   fst (DecryptUint8 ideal_engine (Some 3) (Some 6) world7) = Inr 7 \<and>
   fst (bindE (Uint8Serialize ideal_engine (Some 6)) (\<lambda>bytes.
        bindE (Uint8Deserialize ideal_engine bytes) (\<lambda>c'.
          DecryptUint8 ideal_engine (Some 3) c')) world7) = Inr 7 \<and>
   fst (bindE (serializeUint8ToBase64 ideal_engine (Some 6)) (\<lambda>text.
        bindE (deserializeUint8 ideal_engine text) (\<lambda>c'.
          DecryptUint8 ideal_engine (Some 3) c')) world7) = Inr 7"
proof -
  have l: "live world7 (Some 0) OBooleanClientKey \<and>
           live world7 (Some 2) (OBooleanCiphertext True) \<and>
           live world7 (Some 3) OClientKey \<and> live world7 (Some 6) (OFheUint8 7)"
    by code_simp
  show ?thesis
    using l serialize_roundtrip [where w = world7 and client = "Some 0" and c = "Some 2"
        and v = True and uclient = "Some 3" and uc = "Some 6" and u = 7]
    by simp
qed


end
